theory Spec2Isabelle
  imports Main
begin

section \<open>JSON values\<close>

text \<open>
  The values \<^verbatim>\<open>json.loads\<close> produces. \<open>JNull\<close> is Python's \<^verbatim>\<open>None\<close>, \<open>JInt\<close> a
  Python int, \<open>JDict\<close> a dict in insertion order with the first binding of a key the one
  that counts. JSON numbers with a fraction or an exponent (Python floats) are not part
  of the model.
\<close>

datatype json =
    JNull
  | JBool bool
  | JInt int
  | JStr string
  | JList "json list"
  | JDict "(string \<times> json) list"

text \<open>\<^verbatim>\<open>d.get(key)\<close> on a dict: the value, or \<^verbatim>\<open>None\<close>.\<close>

definition dict_get :: "(string \<times> json) list \<Rightarrow> string \<Rightarrow> json" where
  "dict_get d k = (case map_of d k of None \<Rightarrow> JNull | Some v \<Rightarrow> v)"

text \<open>Python's truth value of a JSON value (\<^verbatim>\<open>if voteGranted:\<close>).\<close>

fun truthy :: "json \<Rightarrow> bool" where
  "truthy JNull = False"
| "truthy (JBool b) = b"
| "truthy (JInt n) = (n \<noteq> 0)"
| "truthy (JStr s) = (s \<noteq> [])"
| "truthy (JList xs) = (xs \<noteq> [])"
| "truthy (JDict d) = (d \<noteq> [])"

text \<open>
  Whether a value can be a dict key. A list or a dict cannot: \<^verbatim>\<open>d.get([])\<close> and
  \<^verbatim>\<open>d.pop({}, None)\<close> raise \<^verbatim>\<open>TypeError\<close>.
\<close>

fun unhashable :: "json \<Rightarrow> string option" where
  "unhashable (JList xs) = Some ''list''"
| "unhashable (JDict d) = Some ''dict''"
| "unhashable v = None"

text \<open>\<^verbatim>\<open>"{}".format(n)\<close> for a natural number: its decimal digits.\<close>

definition digit :: "nat \<Rightarrow> char" where
  "digit d = char_of (48 + d)"

fun str_nat :: "nat \<Rightarrow> string" where
  "str_nat n = (if n < 10 then [digit n] else str_nat (n div 10) @ [digit (n mod 10)])"

declare str_nat.simps [simp del]

section \<open>The RPC runtime (\<^verbatim>\<open>asab/raft/rpc.py\<close>)\<close>

text \<open>
  An exception in flight: \<^verbatim>\<open>RPCError\<close> with its \<^verbatim>\<open>obj\<close>, or any other exception with
  its class name and its text (\<^verbatim>\<open>e.__class__.__name__\<close> and \<^verbatim>\<open>str(e)\<close>).
\<close>

datatype exn =
    RPCError json
  | Exception string string

text \<open>\<^verbatim>\<open>RPCError.__init__\<close>: \<^verbatim>\<open>data\<close> is stored only when it is not \<^verbatim>\<open>None\<close>.\<close>

definition RPCError_obj :: "json \<Rightarrow> json \<Rightarrow> json \<Rightarrow> json" where
  "RPCError_obj code message data =
     JDict ([(''code'', code), (''message'', message)]
            @ (if data \<noteq> JNull then [(''data'', data)] else []))"

text \<open>The exceptions the interpreter raises in this code, with their texts.\<close>

definition AssertionError :: exn where
  "AssertionError = Exception ''AssertionError'' []"

definition quoted :: "string \<Rightarrow> string" where
  "quoted s = [CHR 0x27] @ s @ [CHR 0x27]"

definition KeyError :: "string \<Rightarrow> exn" where
  "KeyError k = Exception ''KeyError'' (quoted k)"

definition TypeError :: "string \<Rightarrow> exn" where
  "TypeError text = Exception ''TypeError'' text"

fun py_type :: "json \<Rightarrow> string" where
  "py_type JNull = ''NoneType''"
| "py_type (JBool b) = ''bool''"
| "py_type (JInt n) = ''int''"
| "py_type (JStr s) = ''str''"
| "py_type (JList xs) = ''list''"
| "py_type (JDict d) = ''dict''"

definition unhashable_type :: "string \<Rightarrow> exn" where
  "unhashable_type ty = TypeError (''unhashable type: '' @ quoted ty)"

definition no_attribute_get :: "json \<Rightarrow> exn" where
  "no_attribute_get v =
     Exception ''AttributeError'' (quoted (py_type v) @ '' object has no attribute '' @ quoted ''get'')"

type_synonym address = "string \<times> nat"

text \<open>
  A handler of the method registry takes the peer address and the params and returns a
  value or raises. What a handler does to the object it is bound to is not part of the
  RPC's own state.
\<close>

type_synonym handler = "address \<Rightarrow> json \<Rightarrow> exn + json"

text \<open>
  The completion slot of an \<^verbatim>\<open>ACall\<close>: \<^verbatim>\<open>Result\<close> is \<^verbatim>\<open>None\<close>, a value, or one of
  the classes \<^verbatim>\<open>asyncio.CancelledError\<close> and \<^verbatim>\<open>asyncio.TimeoutError\<close>.
\<close>

datatype slot = Empty | Value json | CancelledError | TimeoutError

record acall =
  PeerAddress :: address
  RequestId :: string
  ReplyEvent :: bool
  Result :: slot
  Error :: json
  TimeoutAt :: int

datatype rpc_log =
    Error_not_jsonrpc
  | Exception_during_request address exn
  | Error_unknown_result json
  | Error_unknown_error json json
  | Error_already_bound string
  | Warn_too_many_acalls nat

text \<open>
  The fields of \<^verbatim>\<open>RPC\<close>. \<open>IdSeq\<close> is the next value of \<^verbatim>\<open>itertools.count(start=1)\<close>.
  An \<^verbatim>\<open>ACall\<close> object is shared by the register and the coroutine that awaits it, so the
  objects live in a store and the register maps a request id to a reference, in insertion
  order: \<open>ACalls r n\<close> is the object whose request took the number \<open>n\<close> of \<open>IdSeq\<close>.
  \<open>Sent\<close> lists the datagrams given to \<^verbatim>\<open>sendto\<close>, as the destination and the JSON
  object that is serialised; \<open>RpcLog\<close> the calls of the module's logger. Sockets, the
  event loop and the payload limit are the transport's and are left out.
\<close>

record rpc =
  IdSeq :: nat
  RPCMethods :: "string \<rightharpoonup> handler"
  ACallRegister :: "(string \<times> nat) list"
  ACalls :: "nat \<Rightarrow> acall"
  Sent :: "(address \<times> json) list"
  RpcLog :: "rpc_log list"

subsection \<open>Dispatch of a request\<close>

text \<open>
  \<^verbatim>\<open>rpc_dispatch_method\<close>. \<^verbatim>\<open>method == "Ping"\<close> comes first; \<^verbatim>\<open>RPCMethods.get(method)\<close>
  raises on an unhashable method and misses on every key that is not a string.
\<close>

definition rpc_dispatch_method :: "address \<Rightarrow> json \<Rightarrow> json \<Rightarrow> rpc \<Rightarrow> exn + json" where
  "rpc_dispatch_method peer_address method params r =
     (if method = JStr ''Ping'' then
        (if params = JNull then Inr (JStr ''Pong'') else Inr params)
      else
        (case unhashable method of
           Some ty \<Rightarrow> Inl (unhashable_type ty)
         | None \<Rightarrow>
             (case (case method of JStr name \<Rightarrow> RPCMethods r name | _ \<Rightarrow> None) of
                Some m \<Rightarrow> m peer_address params
              | None \<Rightarrow> Inl (RPCError (RPCError_obj (JInt (- 32601)) (JStr ''Method not found'') method)))))"

text \<open>
  The runtime after \<^verbatim>\<open>RPC.__init__\<close>: the counter at 1, both dicts empty. No \<^verbatim>\<open>ACall\<close>
  exists yet; the store holds a blank object at every reference.
\<close>

definition blank_acall :: acall where
  "blank_acall =
     \<lparr>PeerAddress = ([], 0), RequestId = [], ReplyEvent = False, Result = Empty,
      Error = JNull, TimeoutAt = 0\<rparr>"

definition RPC_init :: rpc where
  "RPC_init =
     \<lparr>IdSeq = 1, RPCMethods = Map.empty, ACallRegister = [], ACalls = (\<lambda>n. blank_acall),
      Sent = [], RpcLog = []\<rparr>"

subsection \<open>Outbound calls\<close>

text \<open>
  \<^verbatim>\<open>sendto(cgram, peer_address)\<close>; \<^verbatim>\<open>_encrypt\<close> and \<^verbatim>\<open>_decrypt\<close> are the identity. A
  destination that is \<^verbatim>\<open>None\<close> (the local peer's address) makes the socket raise.
\<close>

definition sendto :: "address option \<Rightarrow> json \<Rightarrow> rpc \<Rightarrow> exn option \<times> rpc" where
  "sendto peer_address obj r =
     (case peer_address of
        None \<Rightarrow> (Some (TypeError ''getsockaddrarg: AF_INET address must be tuple, not NoneType''), r)
      | Some a \<Rightarrow> (None, r\<lparr>Sent := Sent r @ [(a, obj)]\<rparr>))"

text \<open>
  \<^verbatim>\<open>call\<close>: the id is \<^verbatim>\<open>"{}:{}".format(method, next(self.IdSeq))\<close>; the counter moves
  before the datagram is sent. The socket is taken to send a datagram whole, so the
  error that \<^verbatim>\<open>call\<close> logs for a short write does not occur.
\<close>

definition call :: "address option \<Rightarrow> string \<Rightarrow> json \<Rightarrow> rpc \<Rightarrow> (exn + string) \<times> rpc" where
  "call peer_address method params r =
     (let request_id = method @ '':'' @ str_nat (IdSeq r);
          request_obj = JDict [(''id'', JStr request_id), (''jsonrpc'', JStr ''2.0''),
                               (''method'', JStr method), (''params'', params)];
          r1 = r\<lparr>IdSeq := IdSeq r + 1\<rparr>
      in case sendto peer_address request_obj r1 of
           (Some e, r2) \<Rightarrow> (Inl e, r2)
         | (None, r2) \<Rightarrow> (Inr request_id, r2))"

text \<open>\<^verbatim>\<open>dict[key] = value\<close> and \<^verbatim>\<open>dict.pop(key)\<close> on the register.\<close>

fun register_set :: "string \<Rightarrow> nat \<Rightarrow> (string \<times> nat) list \<Rightarrow> (string \<times> nat) list" where
  "register_set k v [] = [(k, v)]"
| "register_set k v ((k', v') # kvs) =
     (if k' = k then (k, v) # kvs else (k', v') # register_set k v kvs)"

definition register_pop :: "string \<Rightarrow> (string \<times> nat) list \<Rightarrow> (string \<times> nat) list" where
  "register_pop k kvs = filter (\<lambda>kv. fst kv \<noteq> k) kvs"

text \<open>
  \<^verbatim>\<open>ACall.__init__\<close>, the part of \<^verbatim>\<open>acall\<close> that runs before the coroutine suspends in
  \<^verbatim>\<open>wait\<close>. \<open>now\<close> is \<^verbatim>\<open>rpc.Loop.time()\<close>, \<open>timeout\<close> the timeout already defaulted.
\<close>

definition acall_init :: "address \<Rightarrow> string \<Rightarrow> json \<Rightarrow> int \<Rightarrow> int \<Rightarrow> rpc \<Rightarrow> (exn + nat) \<times> rpc" where
  "acall_init peer_address method params timeout now r =
     (let n = IdSeq r in
      case call (Some peer_address) method params r of
        (Inl e, r1) \<Rightarrow> (Inl e, r1)
      | (Inr request_id, r1) \<Rightarrow>
          (Inr n,
           r1\<lparr>ACallRegister := register_set request_id n (ACallRegister r1),
              ACalls := (ACalls r1)
                (n := \<lparr>PeerAddress = peer_address, RequestId = request_id, ReplyEvent = False,
                       Result = Empty, Error = JNull, TimeoutAt = now + timeout\<rparr>)\<rparr>))"

subsection \<open>The methods of \<^verbatim>\<open>ACall\<close>\<close>

text \<open>
  \<^verbatim>\<open>wait\<close> once the coroutine runs again: \<open>None\<close> while \<^verbatim>\<open>ReplyEvent\<close> is not set, then
  what the awaiter gets, a value or an exception.
\<close>

definition wait :: "acall \<Rightarrow> (exn + json) option" where
  "wait a =
     (if \<not> ReplyEvent a then None
      else if Error a \<noteq> JNull then
        (case Error a of
           JDict d \<Rightarrow>
             Some (Inl (RPCError (RPCError_obj (dict_get d ''code'') (dict_get d ''message'')
                                    (dict_get d ''data''))))
         | v \<Rightarrow> Some (Inl (no_attribute_get v)))
      else
        (case Result a of
           CancelledError \<Rightarrow> Some (Inl (Exception ''CancelledError'' []))
         | TimeoutError \<Rightarrow> Some (Inl (Exception ''TimeoutError'' []))
         | Empty \<Rightarrow> Some (Inr JNull)
         | Value v \<Rightarrow> Some (Inr v)))"

definition send :: "address \<Rightarrow> json \<Rightarrow> acall \<Rightarrow> exn + acall" where
  "send peer_address result a =
     (if PeerAddress a \<noteq> peer_address then Inl AssertionError
      else if Result a \<noteq> Empty then Inl AssertionError
      else if Error a \<noteq> JNull then Inl AssertionError
      else Inr (a\<lparr>Result := Value result, ReplyEvent := True\<rparr>))"

definition send_error :: "address \<Rightarrow> json \<Rightarrow> acall \<Rightarrow> exn + acall" where
  "send_error peer_address error a =
     (if PeerAddress a \<noteq> peer_address then Inl AssertionError
      else if Result a \<noteq> Empty then Inl AssertionError
      else if Error a \<noteq> JNull then Inl AssertionError
      else Inr (a\<lparr>Error := error, ReplyEvent := True\<rparr>))"

definition cancel :: "acall \<Rightarrow> acall" where
  "cancel a = (if \<not> ReplyEvent a then a\<lparr>Result := CancelledError, ReplyEvent := True\<rparr> else a)"

definition timeout :: "acall \<Rightarrow> acall" where
  "timeout a = (if \<not> ReplyEvent a then a\<lparr>Result := TimeoutError, ReplyEvent := True\<rparr> else a)"

subsection \<open>Shutdown and the reaper\<close>

text \<open>\<^verbatim>\<open>finalize\<close>: every object of the register is cancelled; the register is not touched.\<close>

definition finalize :: "rpc \<Rightarrow> rpc" where
  "finalize r =
     r\<lparr>ACalls := fold (\<lambda>ref store. store(ref := cancel (store ref)))
                       (map snd (ACallRegister r)) (ACalls r)\<rparr>"

text \<open>
  \<^verbatim>\<open>_on_tick\<close>: the ids of the expired calls are collected first; each is popped (a
  \<^verbatim>\<open>KeyError\<close> if it is not a key) and timed out.
\<close>

fun reap :: "string list \<Rightarrow> rpc \<Rightarrow> exn option \<times> rpc" where
  "reap [] r = (None, r)"
| "reap (request_id # ids) r =
     (case map_of (ACallRegister r) request_id of
        None \<Rightarrow> (Some (KeyError request_id), r)
      | Some ref \<Rightarrow>
          reap ids (r\<lparr>ACallRegister := register_pop request_id (ACallRegister r),
                      ACalls := (ACalls r)(ref := timeout (ACalls r ref))\<rparr>))"

definition on_tick :: "int \<Rightarrow> rpc \<Rightarrow> exn option \<times> rpc" where
  "on_tick now r =
     (let filtered_acalls =
            map (\<lambda>kv. RequestId (ACalls r (snd kv)))
                (filter (\<lambda>kv. TimeoutAt (ACalls r (snd kv)) \<le> now) (ACallRegister r))
      in case reap filtered_acalls r of
           (Some e, r1) \<Rightarrow> (Some e, r1)
         | (None, r1) \<Rightarrow>
             (None,
              if length (ACallRegister r1) > 30
              then r1\<lparr>RpcLog := RpcLog r1 @ [Warn_too_many_acalls (length (ACallRegister r1))]\<rparr>
              else r1))"

subsection \<open>Dispatch of a result and of an error\<close>

text \<open>
  \<^verbatim>\<open>ACallRegister.pop(result_id, None)\<close>: an unhashable id raises, an id that is not a
  string is no key of the register.
\<close>

definition register_lookup :: "json \<Rightarrow> rpc \<Rightarrow> exn + (string \<times> nat) option" where
  "register_lookup result_id r =
     (case unhashable result_id of
        Some ty \<Rightarrow> Inl (unhashable_type ty)
      | None \<Rightarrow>
          (case result_id of
             JStr k \<Rightarrow> Inr (map_option (\<lambda>ref. (k, ref)) (map_of (ACallRegister r) k))
           | _ \<Rightarrow> Inr None))"

definition rpc_dispatch_result :: "address \<Rightarrow> json \<Rightarrow> json \<Rightarrow> rpc \<Rightarrow> exn option \<times> rpc" where
  "rpc_dispatch_result peer_address result_id result r =
     (case register_lookup result_id r of
        Inl e \<Rightarrow> (Some e, r)
      | Inr None \<Rightarrow> (None, r\<lparr>RpcLog := RpcLog r @ [Error_unknown_result result_id]\<rparr>)
      | Inr (Some (k, ref)) \<Rightarrow>
          (let r1 = r\<lparr>ACallRegister := register_pop k (ACallRegister r)\<rparr> in
           case send peer_address result (ACalls r1 ref) of
             Inl e \<Rightarrow> (Some e, r1)
           | Inr a \<Rightarrow> (None, r1\<lparr>ACalls := (ACalls r1)(ref := a)\<rparr>)))"

definition rpc_dispatch_error :: "address \<Rightarrow> json \<Rightarrow> json \<Rightarrow> rpc \<Rightarrow> exn option \<times> rpc" where
  "rpc_dispatch_error peer_address result_id error r =
     (case register_lookup result_id r of
        Inl e \<Rightarrow> (Some e, r)
      | Inr None \<Rightarrow> (None, r\<lparr>RpcLog := RpcLog r @ [Error_unknown_error error result_id]\<rparr>)
      | Inr (Some (k, ref)) \<Rightarrow>
          (let r1 = r\<lparr>ACallRegister := register_pop k (ACallRegister r)\<rparr> in
           case send_error peer_address error (ACalls r1 ref) of
             Inl e \<Rightarrow> (Some e, r1)
           | Inr a \<Rightarrow> (None, r1\<lparr>ACalls := (ACalls r1)(ref := a)\<rparr>)))"

subsection \<open>Receiving\<close>

text \<open>
  One pass of the \<^verbatim>\<open>while True\<close> loop of \<^verbatim>\<open>on_recv\<close>, for one datagram. The datagram
  is given as its sender and as what \<^verbatim>\<open>json.loads(request_dgram.decode('utf-8'))\<close>
  makes of it: a JSON value, or the exception the decoder raises.

  \<open>try_block\<close> is the body of the \<^verbatim>\<open>try\<close>. It yields \<^verbatim>\<open>propagate_error\<close>, the way the
  block is left, and the state: an exception, \<^verbatim>\<open>return\<close>, \<^verbatim>\<open>continue\<close>, or the end of
  the block with the value of \<^verbatim>\<open>result\<close>.
\<close>

datatype flow = Return | Continue | Fall json

definition try_block :: "address \<Rightarrow> exn + json \<Rightarrow> rpc \<Rightarrow> bool \<times> (exn + flow) \<times> rpc" where
  "try_block peer_address loaded r =
     (case loaded of
        Inl e \<Rightarrow> (False, Inl e, r)
      | Inr (JDict request_obj) \<Rightarrow>
          (if (case map_of request_obj ''jsonrpc'' of None \<Rightarrow> JStr ''?'' | Some v \<Rightarrow> v) \<noteq> JStr ''2.0''
           then (False, Inr Return, r\<lparr>RpcLog := RpcLog r @ [Error_not_jsonrpc]\<rparr>)
           else
             (let method = dict_get request_obj ''method'' in
              if method \<noteq> JNull then
                (case rpc_dispatch_method peer_address method (dict_get request_obj ''params'') r of
                   Inl e \<Rightarrow> (True, Inl e, r)
                 | Inr result \<Rightarrow> (True, Inr (Fall result), r))
              else
                (let result_id = dict_get request_obj ''id'';
                     result = dict_get request_obj ''result''
                 in if result \<noteq> JNull then
                      (case rpc_dispatch_result peer_address result_id result r of
                         (Some e, r1) \<Rightarrow> (False, Inl e, r1)
                       | (None, r1) \<Rightarrow> (False, Inr Continue, r1))
                    else
                      (let error = dict_get request_obj ''error'' in
                       if error \<noteq> JNull then
                         (case rpc_dispatch_error peer_address result_id error r of
                            (Some e, r1) \<Rightarrow> (False, Inl e, r1)
                          | (None, r1) \<Rightarrow> (False, Inr Continue, r1))
                       else (False, Inr (Fall JNull), r)))))
      | Inr v \<Rightarrow> (False, Inl (no_attribute_get v), r))"

text \<open>\<^verbatim>\<open>request_obj.get('id')\<close>, read where a reply is built.\<close>

definition request_id_of :: "exn + json \<Rightarrow> json" where
  "request_id_of loaded = (case loaded of Inr (JDict request_obj) \<Rightarrow> dict_get request_obj ''id'' | _ \<Rightarrow> JNull)"

definition reply :: "address \<Rightarrow> json \<Rightarrow> string \<Rightarrow> json \<Rightarrow> rpc \<Rightarrow> rpc" where
  "reply peer_address request_id key v r =
     r\<lparr>Sent := Sent r @ [(peer_address, JDict [(''id'', request_id), (''jsonrpc'', JStr ''2.0''), (key, v)])]\<rparr>"

text \<open>
  The handlers of the \<^verbatim>\<open>try\<close> and the reply after it. The boolean says whether the loop
  goes on to the next datagram (\<^verbatim>\<open>return\<close> leaves it).
\<close>

definition on_recv_one :: "address \<Rightarrow> exn + json \<Rightarrow> rpc \<Rightarrow> bool \<times> rpc" where
  "on_recv_one peer_address loaded r =
     (case try_block peer_address loaded r of
        (propagate_error, Inl (RPCError obj), r1) \<Rightarrow>
          (True,
           if propagate_error then reply peer_address (request_id_of loaded) ''error'' obj r1 else r1)
      | (propagate_error, Inl (Exception cls text), r1) \<Rightarrow>
          (let r2 = r1\<lparr>RpcLog := RpcLog r1 @ [Exception_during_request peer_address (Exception cls text)]\<rparr>
           in (True,
               if propagate_error
               then reply peer_address (request_id_of loaded) ''error''
                      (JDict [(''code'', JInt (- 32603)), (''message'', JStr (cls @ '':'' @ text))]) r2
               else r2))
      | (propagate_error, Inr Return, r1) \<Rightarrow> (False, r1)
      | (propagate_error, Inr Continue, r1) \<Rightarrow> (True, r1)
      | (propagate_error, Inr (Fall result), r1) \<Rightarrow>
          (True,
           if result \<noteq> JNull then reply peer_address (request_id_of loaded) ''result'' result r1
           else r1))"

text \<open>
  \<^verbatim>\<open>on_recv\<close> on the datagrams that wait in the socket: \<^verbatim>\<open>recvfrom\<close> raises
  \<^verbatim>\<open>BlockingIOError\<close> when none is left. The datagrams not read are returned.
\<close>

fun on_recv :: "(address \<times> (exn + json)) list \<Rightarrow> rpc \<Rightarrow> (address \<times> (exn + json)) list \<times> rpc" where
  "on_recv [] r = ([], r)"
| "on_recv ((peer_address, loaded) # queue) r =
     (case on_recv_one peer_address loaded r of
        (True, r1) \<Rightarrow> on_recv queue r1
      | (False, r1) \<Rightarrow> (queue, r1))"

section \<open>The Raft role machine (\<^verbatim>\<open>asab/raft/service.py\<close>)\<close>

subsection \<open>State\<close>

text \<open>
  Modelled from the spec: \<^verbatim>\<open>asab.Timer\<close>, which \<^verbatim>\<open>asab/raft\<close> uses and does not
  define. A timer is a cancelable one-shot timer with the operations
  \<^verbatim>\<open>start(duration)\<close>, \<^verbatim>\<open>restart(duration)\<close> (cancel and start) and \<^verbatim>\<open>stop()\<close>; it is
  either idle (\<open>None\<close>) or armed with a duration. Durations are kept in the
  milliseconds of the configuration (the source divides by 1000.0 to get seconds).
\<close>

type_synonym timer = "int option"

definition timer_start :: "int \<Rightarrow> timer \<Rightarrow> timer" where
  "timer_start duration t = Some duration"

definition timer_restart :: "int \<Rightarrow> timer \<Rightarrow> timer" where
  "timer_restart duration t = Some duration"

definition timer_stop :: "timer \<Rightarrow> timer" where
  "timer_stop t = None"

text \<open>\<^verbatim>\<open>class Peer\<close>. \<open>Address\<close> is \<open>None\<close> for the node itself; the id starts as "?".\<close>

record peer =
  Address :: "address option"
  Id_peer :: json
  VoteGranted :: bool

definition Peer :: "address option \<Rightarrow> peer" where
  "Peer address = \<lparr>Address = address, Id_peer = JStr ''?'', VoteGranted = False\<rparr>"

text \<open>The calls of the module's logger, each with the arguments of its format string.\<close>

datatype svc_log =
    Entering_follower string
  | Entering_candidate string int
  | Entering_leader string int
  | No_heartbeat_needed string
  | AppendEntries_old_term json int
  | Peer_now_known address json
  | Server_id_changed json json address
  | RequestVote_higher_term json int
  | Already_voted address json
  | Cannot_find_peer address json
  | Voted_for json

text \<open>
  The fields of \<^verbatim>\<open>RaftService\<close>, the keys of \<^verbatim>\<open>PersistentState\<close> and of
  \<^verbatim>\<open>VolatileState\<close> among them. \<open>State\<close> is the string the source keeps: "?", "F", "C"
  or "L". \<open>votedFor\<close> is \<open>JNull\<close> for \<^verbatim>\<open>None\<close>. The module \<^verbatim>\<open>random\<close> is an oracle:
  \<open>Random s n\<close> is the number behind its \<open>n\<close>-th draw and \<open>Drawn\<close> counts the draws made.
\<close>

record service =
  RPC :: rpc
  State :: string
  ElectionTimerRange :: "int \<times> int"
  ElectionTimer :: timer
  HeartBeatTimeout :: int
  HeartBeatTimer :: timer
  currentTerm :: int
  votedFor :: json
  log :: "json list"
  commitIndex :: int
  lastApplied :: int
  Peers :: "peer list"
  ServerId :: string
  Random :: "nat \<Rightarrow> nat"
  Drawn :: nat
  SvcLog :: "svc_log list"

text \<open>
  The node after \<^verbatim>\<open>__init__\<close>, given what the constructor reads from the configuration
  and the sockets: the server id, the remote peers' addresses (the node's own entry
  already skipped), the timer settings. The node itself is the first peer.
\<close>

definition service_init ::
    "string \<Rightarrow> address list \<Rightarrow> int \<times> int \<Rightarrow> int \<Rightarrow> (nat \<Rightarrow> nat) \<Rightarrow> service" where
  "service_init server_id peers timer_range heartbeat random =
     \<lparr>RPC = RPC_init, State = ''?'', ElectionTimerRange = timer_range, ElectionTimer = None,
      HeartBeatTimeout = heartbeat, HeartBeatTimer = None,
      currentTerm = 0, votedFor = JNull, log = [], commitIndex = 0, lastApplied = 0,
      Peers = (Peer None)\<lparr>Id_peer := JStr server_id\<rparr> # map (\<lambda>a. Peer (Some a)) peers,
      ServerId = server_id, Random = random, Drawn = 0, SvcLog = []\<rparr>"

definition warn :: "svc_log \<Rightarrow> service \<Rightarrow> service" where
  "warn line s = s\<lparr>SvcLog := SvcLog s @ [line]\<rparr>"

subsection \<open>Timers and role changes\<close>

text \<open>\<^verbatim>\<open>random.randint(a, b)\<close>: an integer of \<open>[a, b]\<close>, chosen by the oracle.\<close>

definition randint :: "int \<Rightarrow> int \<Rightarrow> nat \<Rightarrow> int" where
  "randint a b x = a + int (x mod nat (b - a + 1))"

definition get_election_timeout :: "service \<Rightarrow> int \<times> service" where
  "get_election_timeout s =
     (randint (fst (ElectionTimerRange s)) (snd (ElectionTimerRange s)) (Random s (Drawn s)),
      s\<lparr>Drawn := Drawn s + 1\<rparr>)"

definition enter_state_follower :: "service \<Rightarrow> service" where
  "enter_state_follower s =
     (let s1 = warn (Entering_follower (State s)) s;
          s2 = s1\<lparr>State := ''F''\<rparr>;
          s3 = s2\<lparr>HeartBeatTimer := timer_stop (HeartBeatTimer s2)\<rparr>;
          (d, s4) = get_election_timeout s3
      in s4\<lparr>ElectionTimer := timer_restart d (ElectionTimer s4)\<rparr>)"

definition initialize :: "service \<Rightarrow> service" where
  "initialize s = enter_state_follower s"

text \<open>\<^verbatim>\<open>request_vote\<close> and \<^verbatim>\<open>append_entries\<close>: the requests the node sends.\<close>

definition rpc_call :: "address option \<Rightarrow> string \<Rightarrow> json \<Rightarrow> service \<Rightarrow> exn option \<times> service" where
  "rpc_call peer_address method params s =
     (case call peer_address method params (RPC s) of
        (Inl e, r) \<Rightarrow> (Some e, s\<lparr>RPC := r\<rparr>)
      | (Inr request_id, r) \<Rightarrow> (None, s\<lparr>RPC := r\<rparr>))"

definition request_vote :: "peer \<Rightarrow> service \<Rightarrow> exn option \<times> service" where
  "request_vote p s =
     rpc_call (Address p) ''RequestVote''
       (JDict [(''term'', JInt (currentTerm s)), (''candidateId'', JStr (ServerId s)),
               (''lastLogIndex'', JInt 1), (''lastLogTerm'', JInt 1)]) s"

definition append_entries :: "peer \<Rightarrow> service \<Rightarrow> exn option \<times> service" where
  "append_entries p s =
     (if State s \<noteq> ''L'' then (Some AssertionError, s)
      else rpc_call (Address p) ''AppendEntries''
             (JDict [(''term'', JInt (currentTerm s)), (''leaderId'', JStr (ServerId s)),
                     (''prevLogIndex'', JInt 1), (''prevLogTerm'', JInt 1),
                     (''entries'', JList []), (''leaderCommitIndex'', JInt (commitIndex s))]) s)"

text \<open>\<^verbatim>\<open>send_heartbeat\<close>: the loop over the peers, left at the first exception.\<close>

fun send_heartbeat_loop :: "peer list \<Rightarrow> service \<Rightarrow> exn option \<times> service" where
  "send_heartbeat_loop [] s = (None, s)"
| "send_heartbeat_loop (p # ps) s =
     (if Address p \<noteq> None then
        (case append_entries p s of
           (Some e, s1) \<Rightarrow> (Some e, s1)
         | (None, s1) \<Rightarrow> send_heartbeat_loop ps s1)
      else send_heartbeat_loop ps s)"

definition send_heartbeat :: "service \<Rightarrow> exn option \<times> service" where
  "send_heartbeat s = send_heartbeat_loop (Peers s) s"

definition enter_state_leader :: "service \<Rightarrow> exn option \<times> service" where
  "enter_state_leader s =
     (let s1 = warn (Entering_leader (State s) (currentTerm s)) s;
          s2 = s1\<lparr>State := ''L''\<rparr>;
          s3 = s2\<lparr>ElectionTimer := timer_stop (ElectionTimer s2)\<rparr>;
          s4 = s3\<lparr>HeartBeatTimer := timer_restart (HeartBeatTimeout s3) (HeartBeatTimer s3)\<rparr>
      in send_heartbeat s4)"

text \<open>\<^verbatim>\<open>evalute_election\<close>, its assertion first.\<close>

definition evalute_election :: "service \<Rightarrow> exn option \<times> service" where
  "evalute_election s =
     (if State s \<noteq> ''C'' then (Some AssertionError, s)
      else
        (let voted_yes = length (filter VoteGranted (Peers s));
             voted_no = length (filter (\<lambda>p. \<not> VoteGranted p) (Peers s))
         in if voted_yes > voted_no then enter_state_leader s else (None, s)))"

text \<open>
  The loop of \<^verbatim>\<open>enter_state_candidate\<close> over the peers. Each peer object is updated in
  place, so the loop returns the peers as it leaves them; \<^verbatim>\<open>request_vote\<close> reads the
  peer's address and the node's term and id only.
\<close>

fun candidate_loop :: "peer list \<Rightarrow> service \<Rightarrow> exn option \<times> peer list \<times> service" where
  "candidate_loop [] s = (None, [], s)"
| "candidate_loop (p # ps) s =
     (if Address p \<noteq> None then
        (let p1 = p\<lparr>VoteGranted := False\<rparr> in
         case request_vote p1 s of
           (Some e, s1) \<Rightarrow> (Some e, p1 # ps, s1)
         | (None, s1) \<Rightarrow>
             (case candidate_loop ps s1 of (x, ps1, s2) \<Rightarrow> (x, p1 # ps1, s2)))
      else
        (case candidate_loop ps s of (x, ps1, s2) \<Rightarrow> (x, p\<lparr>VoteGranted := True\<rparr> # ps1, s2)))"

definition enter_state_candidate :: "service \<Rightarrow> exn option \<times> service" where
  "enter_state_candidate s =
     (let s1 = warn (Entering_candidate (State s) (currentTerm s + 1)) s;
          s2 = s1\<lparr>State := ''C''\<rparr>;
          s3 = s2\<lparr>currentTerm := currentTerm s2 + 1\<rparr>
      in case candidate_loop (Peers s3) s3 of
           (Some e, ps, s4) \<Rightarrow> (Some e, s4\<lparr>Peers := ps\<rparr>)
         | (None, ps, s4) \<Rightarrow>
             (case evalute_election (s4\<lparr>Peers := ps\<rparr>) of
                (Some e, s5) \<Rightarrow> (Some e, s5)
              | (None, s5) \<Rightarrow>
                  (if State s5 = ''C'' then
                     (let (d, s6) = get_election_timeout s5;
                          s7 = s6\<lparr>ElectionTimer := timer_restart d (ElectionTimer s6)\<rparr>
                      in (None, s7\<lparr>HeartBeatTimer := timer_restart (HeartBeatTimeout s7) (HeartBeatTimer s7)\<rparr>))
                   else (None, s5))))"

definition on_election_timeout :: "service \<Rightarrow> exn option \<times> service" where
  "on_election_timeout s = enter_state_candidate s"

text \<open>\<^verbatim>\<open>_on_heartbeat_timeout\<close>; the timer is started again only if nothing was raised.\<close>

fun resolicit_loop :: "peer list \<Rightarrow> service \<Rightarrow> exn option \<times> service" where
  "resolicit_loop [] s = (None, s)"
| "resolicit_loop (p # ps) s =
     (if \<not> VoteGranted p then
        (case request_vote p s of
           (Some e, s1) \<Rightarrow> (Some e, s1)
         | (None, s1) \<Rightarrow> resolicit_loop ps s1)
      else resolicit_loop ps s)"

definition on_heartbeat_timeout :: "service \<Rightarrow> exn option \<times> service" where
  "on_heartbeat_timeout s =
     (case (if State s = ''L'' then send_heartbeat s
            else if State s = ''C'' then resolicit_loop (Peers s) s
            else (None, warn (No_heartbeat_needed (State s)) s)) of
        (Some e, s1) \<Rightarrow> (Some e, s1)
      | (None, s1) \<Rightarrow> (None, s1\<lparr>HeartBeatTimer := timer_start (HeartBeatTimeout s1) (HeartBeatTimer s1)\<rparr>))"

subsection \<open>The handlers of inbound requests and of replies\<close>

text \<open>
  \<^verbatim>\<open>params['term']\<close>: subscription with a string key. Only a dict has one; a missing
  key raises \<^verbatim>\<open>KeyError\<close>, every other value \<^verbatim>\<open>TypeError\<close>.
\<close>

fun subscript :: "json \<Rightarrow> string \<Rightarrow> exn + json" where
  "subscript (JDict d) k = (case map_of d k of None \<Rightarrow> Inl (KeyError k) | Some v \<Rightarrow> Inr v)"
| "subscript (JList xs) k = Inl (TypeError ''list indices must be integers or slices, not str'')"
| "subscript (JStr str) k = Inl (TypeError ''string indices must be integers'')"
| "subscript v k = Inl (TypeError (quoted (py_type v) @ '' object is not subscriptable''))"

text \<open>
  The integer a value is when it is compared with the int \<^verbatim>\<open>currentTerm\<close>: an int is
  itself, a bool is 0 or 1 (Python's \<^verbatim>\<open>bool\<close> is a subclass of \<^verbatim>\<open>int\<close>), and the
  comparison of anything else with an int raises \<^verbatim>\<open>TypeError\<close>. The term is stored as
  this integer.
\<close>

fun py_int :: "json \<Rightarrow> int option" where
  "py_int (JInt n) = Some n"
| "py_int (JBool b) = Some (if b then 1 else 0)"
| "py_int v = None"

definition not_supported :: "string \<Rightarrow> json \<Rightarrow> exn" where
  "not_supported oper v =
     TypeError (quoted oper @ '' not supported between instances of '' @ quoted (py_type v)
                @ '' and '' @ quoted ''int'')"

text \<open>\<^verbatim>\<open>append_entries_server\<close>, the handler of the method AppendEntries.\<close>

definition append_entries_server :: "json \<Rightarrow> service \<Rightarrow> (exn + json) \<times> service" where
  "append_entries_server params s =
     (case subscript params ''term'' of
        Inl e \<Rightarrow> (Inl e, s)
      | Inr term \<Rightarrow>
     (case subscript params ''leaderId'' of
        Inl e \<Rightarrow> (Inl e, s)
      | Inr leaderId \<Rightarrow>
     (let ret = (\<lambda>success. JDict [(''term'', JInt (currentTerm s)), (''success'', JBool success),
                                   (''serverId'', JStr (ServerId s))])
      in case py_int term of
           None \<Rightarrow> (Inl (not_supported ''>='' term), s)
         | Some t \<Rightarrow>
             (if t \<ge> currentTerm s then
                (let s1 = s\<lparr>currentTerm := t\<rparr>;
                     s2 = (if State s1 \<noteq> ''F'' then enter_state_follower s1 else s1);
                     (d, s3) = get_election_timeout s2;
                     s4 = s3\<lparr>ElectionTimer := timer_restart d (ElectionTimer s3)\<rparr>
                 in (Inr (ret True), s4))
              else
                (Inr (ret False), warn (AppendEntries_old_term term (currentTerm s)) s)))))"

text \<open>
  The \<^verbatim>\<open>for peer in self.Peers\<close> loops of the reply handlers stop at the first peer
  whose address is the sender's; \<open>find_peer\<close> is its position, \<open>None\<close> when the loop
  runs to its \<^verbatim>\<open>else\<close>.
\<close>

fun find_peer :: "address \<Rightarrow> peer list \<Rightarrow> nat option" where
  "find_peer a [] = None"
| "find_peer a (p # ps) =
     (if Address p = Some a then Some 0 else map_option Suc (find_peer a ps))"

text \<open>\<^verbatim>\<open>append_entries_result\<close>, the handler of a reply to AppendEntries.\<close>

definition append_entries_result :: "address \<Rightarrow> json \<Rightarrow> service \<Rightarrow> exn option \<times> service" where
  "append_entries_result peer_address params s =
     (case subscript params ''serverId'' of
        Inl e \<Rightarrow> (Some e, s)
      | Inr serverId \<Rightarrow>
          (case find_peer peer_address (Peers s) of
             None \<Rightarrow> (None, s)
           | Some i \<Rightarrow>
               (let p = Peers s ! i in
                if Id_peer p = JStr ''?'' then
                  (None, (warn (Peer_now_known peer_address serverId) s)
                           \<lparr>Peers := (Peers s)[i := p\<lparr>Id_peer := serverId\<rparr>]\<rparr>)
                else if Id_peer p \<noteq> serverId then
                  (None, warn (Server_id_changed (Id_peer p) serverId peer_address) s)
                else (None, s))))"

text \<open>\<^verbatim>\<open>request_vote_result\<close>, the handler of a reply to RequestVote.\<close>

definition request_vote_result :: "address \<Rightarrow> json \<Rightarrow> service \<Rightarrow> exn option \<times> service" where
  "request_vote_result peer_address params s =
     (case subscript params ''term'' of
        Inl e \<Rightarrow> (Some e, s)
      | Inr term \<Rightarrow>
     (case subscript params ''voteGranted'' of
        Inl e \<Rightarrow> (Some e, s)
      | Inr voteGranted \<Rightarrow>
     (case subscript params ''serverId'' of
        Inl e \<Rightarrow> (Some e, s)
      | Inr serverId \<Rightarrow>
     (case py_int term of
        None \<Rightarrow> (Some (not_supported ''<'' term), s)
      | Some t \<Rightarrow>
          (if t < currentTerm s then (None, s)
           else if t > currentTerm s then
             (None, warn (RequestVote_higher_term term (currentTerm s)) s)
           else
             (case find_peer peer_address (Peers s) of
                None \<Rightarrow> (None, warn (Cannot_find_peer peer_address serverId) s)
              | Some i \<Rightarrow>
                  (let p = Peers s ! i;
                       s1 = (if Id_peer p = JStr ''?'' then
                               (warn (Peer_now_known peer_address serverId) s)
                                 \<lparr>Peers := (Peers s)[i := p\<lparr>Id_peer := serverId\<rparr>]\<rparr>
                             else if Id_peer p \<noteq> serverId then
                               warn (Server_id_changed (Id_peer p) serverId peer_address) s
                             else s);
                       p1 = Peers s1 ! i
                   in if truthy voteGranted then
                        (if \<not> VoteGranted p1 then
                           evalute_election (s1\<lparr>Peers := (Peers s1)[i := p1\<lparr>VoteGranted := True\<rparr>]\<rparr>)
                         else (None, warn (Already_voted peer_address serverId) s1))
                      else (None, s1))))))))"

text \<open>\<^verbatim>\<open>request_vote_server\<close>, the handler of the method RequestVote.\<close>

definition request_vote_server :: "json \<Rightarrow> service \<Rightarrow> (exn + json) \<times> service" where
  "request_vote_server params s =
     (case subscript params ''term'' of
        Inl e \<Rightarrow> (Inl e, s)
      | Inr term \<Rightarrow>
     (case subscript params ''candidateId'' of
        Inl e \<Rightarrow> (Inl e, s)
      | Inr candidateId \<Rightarrow>
     (let ret = (\<lambda>granted. JDict [(''term'', term), (''voteGranted'', JBool granted),
                                   (''serverId'', JStr (ServerId s))])
      in case py_int term of
           None \<Rightarrow> (Inl (not_supported ''<'' term), s)
         | Some t \<Rightarrow>
             (if t < currentTerm s then (Inr (ret False), s)
              else if votedFor s \<noteq> JNull \<and> votedFor s \<noteq> candidateId then (Inr (ret False), s)
              else if votedFor s = JNull \<or> votedFor s \<noteq> candidateId then
                (let s1 = s\<lparr>votedFor := candidateId\<rparr>;
                     s2 = warn (Voted_for candidateId) s1;
                     s3 = (if State s2 = ''C'' then enter_state_follower s2 else s2)
                 in (Inr (ret True), s3))
              else (Inr (ret False), s)))))"

subsection \<open>Executions\<close>

text \<open>
  What the node reacts to: the expiry of its two timers and the four kinds of frame its
  handlers take. A handler is applied as it is declared: to the params of the frame, and
  to the sender as well for a reply. A timer that fires is idle when its callback runs.
  An exception leaves the callback or the handler; the node keeps the state reached and
  goes on with the next event.
\<close>

datatype event =
    Election_timeout
  | Heartbeat_timeout
  | AppendEntries_request json
  | RequestVote_request json
  | AppendEntries_reply address json
  | RequestVote_reply address json

definition raised :: "(exn + json) \<times> service \<Rightarrow> exn option \<times> service" where
  "raised out = (case out of (Inl e, s) \<Rightarrow> (Some e, s) | (Inr v, s) \<Rightarrow> (None, s))"

fun step :: "event \<Rightarrow> service \<Rightarrow> exn option \<times> service" where
  "step Election_timeout s = on_election_timeout (s\<lparr>ElectionTimer := None\<rparr>)"
| "step Heartbeat_timeout s = on_heartbeat_timeout (s\<lparr>HeartBeatTimer := None\<rparr>)"
| "step (AppendEntries_request params) s = raised (append_entries_server params s)"
| "step (RequestVote_request params) s = raised (request_vote_server params s)"
| "step (AppendEntries_reply peer_address params) s = append_entries_result peer_address params s"
| "step (RequestVote_reply peer_address params) s = request_vote_result peer_address params s"

fun enabled :: "event \<Rightarrow> service \<Rightarrow> bool" where
  "enabled Election_timeout s = (ElectionTimer s \<noteq> None)"
| "enabled Heartbeat_timeout s = (HeartBeatTimer s \<noteq> None)"
| "enabled ev s = True"

fun run :: "event list \<Rightarrow> service \<Rightarrow> service" where
  "run [] s = s"
| "run (ev # evs) s = run evs (snd (step ev s))"

text \<open>Whether every event of an execution is enabled where it happens.\<close>

fun feasible :: "event list \<Rightarrow> service \<Rightarrow> bool" where
  "feasible [] s = True"
| "feasible (ev # evs) s = (enabled ev s \<and> feasible evs (snd (step ev s)))"

subsection \<open>Notions used to state the properties\<close>

text \<open>\<open>only_RPC s s'\<close>: the node \<open>s'\<close> is \<open>s\<close> but for its RPC runtime.\<close>

definition only_RPC :: "service \<Rightarrow> service \<Rightarrow> bool" where
  "only_RPC s s' = (s' = s\<lparr>RPC := RPC s'\<rparr>)"

text \<open>
  The peers as the loop of \<^verbatim>\<open>enter_state_candidate\<close> leaves them, and the tally of
  \<^verbatim>\<open>evalute_election\<close> on a peer table.
\<close>

definition after_candidate_loop :: "peer list \<Rightarrow> peer list" where
  "after_candidate_loop ps = map (\<lambda>p. p\<lparr>VoteGranted := (Address p = None)\<rparr>) ps"

definition majority :: "peer list \<Rightarrow> bool" where
  "majority ps = (length (filter VoteGranted ps) > length (filter (\<lambda>p. \<not> VoteGranted p) ps))"

text \<open>
  Whether an inbound frame carries a method: it is a JSON object whose \<^verbatim>\<open>method\<close> is
  present and not null.
\<close>

definition carried_method :: "exn + json \<Rightarrow> bool" where
  "carried_method loaded =
     (case loaded of Inr (JDict request_obj) \<Rightarrow> dict_get request_obj ''method'' \<noteq> JNull | _ \<Rightarrow> False)"

text \<open>Whether a method is a key of the method registry.\<close>

definition registered :: "json \<Rightarrow> rpc \<Rightarrow> bool" where
  "registered method r = (case method of JStr name \<Rightarrow> RPCMethods r name \<noteq> None | _ \<Rightarrow> False)"

text \<open>
  The \<^verbatim>\<open>error\<close> member of the reply to a request whose dispatch raised \<open>e\<close>: the object
  of an \<^verbatim>\<open>RPCError\<close>, code -32603 for every other exception.
\<close>

definition error_of :: "exn \<Rightarrow> json" where
  "error_of e =
     (case e of
        RPCError obj \<Rightarrow> obj
      | Exception cls text \<Rightarrow>
          JDict [(''code'', JInt (- 32603)), (''message'', JStr (cls @ '':'' @ text))])"

text \<open>
  A socket of the node becomes readable: the constructor registers \<^verbatim>\<open>self.RPC.on_recv\<close>
  as the reader of every socket, so the datagrams go to the RPC runtime of the node.
\<close>

definition socket_readable :: "(address \<times> (exn + json)) list \<Rightarrow> service \<Rightarrow> service" where
  "socket_readable queue s = s\<lparr>RPC := snd (on_recv queue (RPC s))\<rparr>"

subsection \<open>Example nodes and frames\<close>

text \<open>
  A node of a cluster of three, just started: n1 listens on port 7001, its peers are at
  10.0.0.2:7002 and 10.0.0.3:7003, the election timeout is drawn from 150 to 300 ms, the
  heartbeat timeout is 50 ms. \<open>example_election\<close> is its first election: the election
  timer expires and the peer at 10.0.0.2 grants its vote, which is a majority.
  \<open>example_term5\<close> is the node after a heartbeat of term 5, \<open>example_known\<close> after it has
  learnt the id of the peer at 10.0.0.2, \<open>example_voted\<close> after it has voted for n2 in
  term 1. \<open>example_pending\<close> is an RPC runtime with one awaited call outstanding.
\<close>

definition example_node :: service where
  "example_node =
     initialize (service_init ''n1:7001'' [(''10.0.0.2'', 7002), (''10.0.0.3'', 7003)]
                   (150, 300) 50 (\<lambda>n. 7))"

definition vote_granted :: "int \<Rightarrow> string \<Rightarrow> json" where
  "vote_granted t server_id =
     JDict [(''term'', JInt t), (''voteGranted'', JBool True), (''serverId'', JStr server_id)]"

definition vote_request :: "int \<Rightarrow> string \<Rightarrow> json" where
  "vote_request t candidate =
     JDict [(''term'', JInt t), (''candidateId'', JStr candidate),
            (''lastLogIndex'', JInt 1), (''lastLogTerm'', JInt 1)]"

definition heartbeat_request :: "int \<Rightarrow> string \<Rightarrow> json" where
  "heartbeat_request t leader =
     JDict [(''term'', JInt t), (''leaderId'', JStr leader), (''prevLogIndex'', JInt 1),
            (''prevLogTerm'', JInt 1), (''entries'', JList []), (''leaderCommitIndex'', JInt 0)]"

definition append_entries_reply :: "int \<Rightarrow> string \<Rightarrow> json" where
  "append_entries_reply t server_id =
     JDict [(''term'', JInt t), (''success'', JBool True), (''serverId'', JStr server_id)]"

definition result_frame :: "string \<Rightarrow> json \<Rightarrow> exn + json" where
  "result_frame request_id v =
     Inr (JDict [(''id'', JStr request_id), (''jsonrpc'', JStr ''2.0''), (''result'', v)])"

definition error_frame :: "string \<Rightarrow> json \<Rightarrow> exn + json" where
  "error_frame request_id err =
     Inr (JDict [(''id'', JStr request_id), (''jsonrpc'', JStr ''2.0''), (''error'', err)])"

definition example_election :: "event list" where
  "example_election =
     [Election_timeout, RequestVote_reply (''10.0.0.2'', 7002) (vote_granted 1 ''n2:7002'')]"

definition example_term5 :: service where
  "example_term5 = snd (append_entries_server (heartbeat_request 5 ''n2:7002'') example_node)"

definition example_known :: service where
  "example_known =
     snd (append_entries_result (''10.0.0.2'', 7002) (append_entries_reply 0 ''n2:7002'') example_node)"

definition example_voted :: service where
  "example_voted = snd (request_vote_server (vote_request 1 ''n2:7002'') example_node)"

definition example_pending :: rpc where
  "example_pending = snd (acall_init (''10.0.0.2'', 7002) ''AppendEntries'' JNull 3 0 RPC_init)"

section \<open>Properties\<close>

subsection \<open>What each operation changes\<close>

lemma only_RPC_refl: "only_RPC s s"
  by (simp add: only_RPC_def)

lemma only_RPC_trans: "only_RPC s s1 \<Longrightarrow> only_RPC s1 s2 \<Longrightarrow> only_RPC s s2"
proof -
  assume a: "only_RPC s s1" and b: "only_RPC s1 s2"
  from b have "s2 = s1\<lparr>RPC := RPC s2\<rparr>" by (simp add: only_RPC_def)
  also from a have "s1 = s\<lparr>RPC := RPC s1\<rparr>" by (simp add: only_RPC_def)
  finally show ?thesis by (simp add: only_RPC_def)
qed

lemma rpc_call_only: "only_RPC s (snd (rpc_call a m p s))"
  by (auto simp: rpc_call_def only_RPC_def split: prod.splits sum.splits)

lemma rpc_call_Some: "fst (rpc_call (Some a) m p s) = None"
  by (auto simp: rpc_call_def call_def sendto_def Let_def split: prod.splits sum.splits)

lemma request_vote_only: "only_RPC s (snd (request_vote p s))"
  unfolding request_vote_def by (rule rpc_call_only)

lemma request_vote_remote: "Address p \<noteq> None \<Longrightarrow> fst (request_vote p s) = None"
  unfolding request_vote_def using rpc_call_Some by auto

lemma append_entries_only: "only_RPC s (snd (append_entries p s))"
  unfolding append_entries_def using rpc_call_only only_RPC_refl by simp

lemma append_entries_leader:
  "State s = ''L'' \<Longrightarrow> Address p \<noteq> None \<Longrightarrow> fst (append_entries p s) = None"
  unfolding append_entries_def using rpc_call_Some by auto

lemma only_RPC_State: "only_RPC s s' \<Longrightarrow> State s' = State s"
  by (metis only_RPC_def service.select_convs(2) service.surjective service.update_convs(1))

lemma send_heartbeat_loop_only: "only_RPC s (snd (send_heartbeat_loop ps s))"
proof (induction ps arbitrary: s)
  case Nil
  show ?case by (simp add: only_RPC_refl)
next
  case (Cons p ps)
  show ?case
  proof (cases "Address p \<noteq> None")
    case False
    then show ?thesis using Cons.IH by simp
  next
    case True
    obtain x s1 where xs: "append_entries p s = (x, s1)" by (cases "append_entries p s")
    then have s1: "only_RPC s s1" using append_entries_only [of s p] by simp
    show ?thesis
    proof (cases x)
      case None
      have "only_RPC s (snd (send_heartbeat_loop ps s1))"
        using only_RPC_trans [OF s1 Cons.IH] .
      then show ?thesis using True xs None by simp
    next
      case (Some e)
      then show ?thesis using True xs s1 by simp
    qed
  qed
qed

lemma send_heartbeat_loop_leader:
  "State s = ''L'' \<Longrightarrow> fst (send_heartbeat_loop ps s) = None"
proof (induction ps arbitrary: s)
  case Nil
  show ?case by simp
next
  case (Cons p ps)
  show ?case
  proof (cases "Address p \<noteq> None")
    case False
    then show ?thesis using Cons by simp
  next
    case True
    obtain x s1 where xs: "append_entries p s = (x, s1)" by (cases "append_entries p s")
    have x: "x = None" using append_entries_leader [OF Cons.prems True] xs by simp
    have "only_RPC s s1" using append_entries_only [of s p] xs by simp
    then have "State s1 = ''L''" using only_RPC_State Cons.prems by simp
    then have "fst (send_heartbeat_loop ps s1) = None" by (rule Cons.IH)
    then show ?thesis using True xs x by simp
  qed
qed

lemma candidate_loop_only: "only_RPC s (snd (snd (candidate_loop ps s)))"
proof (induction ps arbitrary: s)
  case Nil
  show ?case by (simp add: only_RPC_refl)
next
  case (Cons p ps)
  show ?case
  proof (cases "Address p")
    case None
    obtain x ps1 s2 where r: "candidate_loop ps s = (x, ps1, s2)"
      by (cases "candidate_loop ps s")
    then have "only_RPC s s2" using Cons.IH [of s] by simp
    then show ?thesis using None r by simp
  next
    case (Some a)
    define p1 where "p1 = p\<lparr>VoteGranted := False\<rparr>"
    obtain x s1 where xs: "request_vote p1 s = (x, s1)" by (cases "request_vote p1 s")
    then have s1: "only_RPC s s1" using request_vote_only [of s p1] by simp
    show ?thesis
    proof (cases x)
      case None
      obtain y ps1 s2 where r: "candidate_loop ps s1 = (y, ps1, s2)"
        by (cases "candidate_loop ps s1")
      then have "only_RPC s1 s2" using Cons.IH [of s1] by simp
      then have "only_RPC s s2" using only_RPC_trans [OF s1] by simp
      then show ?thesis using Some xs None r by (simp add: p1_def [symmetric] Let_def)
    next
      case (Some e)
      then show ?thesis using \<open>Address p = Some a\<close> xs s1 by (simp add: p1_def [symmetric] Let_def)
    qed
  qed
qed

lemma candidate_loop_result:
  "fst (candidate_loop ps s) = None
   \<and> fst (snd (candidate_loop ps s)) = map (\<lambda>p. p\<lparr>VoteGranted := (Address p = None)\<rparr>) ps"
proof (induction ps arbitrary: s)
  case Nil
  show ?case by simp
next
  case (Cons p ps)
  show ?case
  proof (cases "Address p")
    case None
    obtain x ps1 s2 where r: "candidate_loop ps s = (x, ps1, s2)"
      by (cases "candidate_loop ps s")
    then show ?thesis using None Cons.IH [of s] by simp
  next
    case (Some a)
    define p1 where "p1 = p\<lparr>VoteGranted := False\<rparr>"
    have "Address p1 \<noteq> None" using Some by (simp add: p1_def)
    then have "fst (request_vote p1 s) = None" by (rule request_vote_remote)
    then obtain s1 where xs: "request_vote p1 s = (None, s1)" by (cases "request_vote p1 s") simp
    obtain y ps1 s2 where r: "candidate_loop ps s1 = (y, ps1, s2)"
      by (cases "candidate_loop ps s1")
    have "p1 = p\<lparr>VoteGranted := (Address p = None)\<rparr>" using Some by (simp add: p1_def)
    then show ?thesis using Some xs r Cons.IH [of s1]
      by (simp add: p1_def [symmetric] Let_def)
  qed
qed


lemma only_RPC_fields:
  assumes "only_RPC s s'"
  shows "State s' = State s" and "ElectionTimerRange s' = ElectionTimerRange s"
    and "ElectionTimer s' = ElectionTimer s" and "HeartBeatTimeout s' = HeartBeatTimeout s"
    and "HeartBeatTimer s' = HeartBeatTimer s" and "currentTerm s' = currentTerm s"
    and "votedFor s' = votedFor s" and "log s' = log s" and "commitIndex s' = commitIndex s"
    and "lastApplied s' = lastApplied s" and "Peers s' = Peers s" and "ServerId s' = ServerId s"
    and "Random s' = Random s" and "Drawn s' = Drawn s" and "SvcLog s' = SvcLog s"
proof -
  from assms have e: "s' = s\<lparr>RPC := RPC s'\<rparr>" by (simp add: only_RPC_def)
  show "State s' = State s" by (subst e) simp
  show "ElectionTimerRange s' = ElectionTimerRange s" by (subst e) simp
  show "ElectionTimer s' = ElectionTimer s" by (subst e) simp
  show "HeartBeatTimeout s' = HeartBeatTimeout s" by (subst e) simp
  show "HeartBeatTimer s' = HeartBeatTimer s" by (subst e) simp
  show "currentTerm s' = currentTerm s" by (subst e) simp
  show "votedFor s' = votedFor s" by (subst e) simp
  show "log s' = log s" by (subst e) simp
  show "commitIndex s' = commitIndex s" by (subst e) simp
  show "lastApplied s' = lastApplied s" by (subst e) simp
  show "Peers s' = Peers s" by (subst e) simp
  show "ServerId s' = ServerId s" by (subst e) simp
  show "Random s' = Random s" by (subst e) simp
  show "Drawn s' = Drawn s" by (subst e) simp
  show "SvcLog s' = SvcLog s" by (subst e) simp
qed

lemma send_heartbeat_only: "only_RPC s (snd (send_heartbeat s))"
  unfolding send_heartbeat_def by (rule send_heartbeat_loop_only)

lemma enter_state_leader_char:
  "fst (enter_state_leader s) = None"
  "snd (enter_state_leader s) =
     s\<lparr>RPC := RPC (snd (enter_state_leader s)),
       State := ''L'', ElectionTimer := None, HeartBeatTimer := Some (HeartBeatTimeout s),
       SvcLog := SvcLog s @ [Entering_leader (State s) (currentTerm s)]\<rparr>"
proof -
  define s4 where
    "s4 = s\<lparr>SvcLog := SvcLog s @ [Entering_leader (State s) (currentTerm s)],
            State := ''L'', ElectionTimer := None, HeartBeatTimer := Some (HeartBeatTimeout s)\<rparr>"
  have el: "enter_state_leader s = send_heartbeat s4"
    by (simp add: enter_state_leader_def s4_def Let_def warn_def timer_stop_def timer_restart_def)
  have "State s4 = ''L''" by (simp add: s4_def)
  then show "fst (enter_state_leader s) = None"
    unfolding el send_heartbeat_def by (rule send_heartbeat_loop_leader)
  have "only_RPC s4 (snd (send_heartbeat s4))" by (rule send_heartbeat_only)
  then show "snd (enter_state_leader s) =
     s\<lparr>RPC := RPC (snd (enter_state_leader s)),
       State := ''L'', ElectionTimer := None, HeartBeatTimer := Some (HeartBeatTimeout s),
       SvcLog := SvcLog s @ [Entering_leader (State s) (currentTerm s)]\<rparr>"
    unfolding el by (intro service.equality) (simp_all add: only_RPC_fields s4_def)
qed

lemma enter_state_candidate_char:
  "fst (enter_state_candidate s) = None"
  "snd (enter_state_candidate s) =
     (if majority (after_candidate_loop (Peers s)) then
        s\<lparr>RPC := RPC (snd (enter_state_candidate s)),
          State := ''L'', currentTerm := currentTerm s + 1,
          Peers := after_candidate_loop (Peers s),
          ElectionTimer := None, HeartBeatTimer := Some (HeartBeatTimeout s),
          SvcLog := SvcLog s @ [Entering_candidate (State s) (currentTerm s + 1),
                                Entering_leader ''C'' (currentTerm s + 1)]\<rparr>
      else
        s\<lparr>RPC := RPC (snd (enter_state_candidate s)),
          State := ''C'', currentTerm := currentTerm s + 1,
          Peers := after_candidate_loop (Peers s),
          ElectionTimer := Some (randint (fst (ElectionTimerRange s)) (snd (ElectionTimerRange s))
                                   (Random s (Drawn s))),
          HeartBeatTimer := Some (HeartBeatTimeout s),
          Drawn := Drawn s + 1,
          SvcLog := SvcLog s @ [Entering_candidate (State s) (currentTerm s + 1)]\<rparr>)"
proof -
  define s3 where
    "s3 = s\<lparr>SvcLog := SvcLog s @ [Entering_candidate (State s) (currentTerm s + 1)],
            State := ''C'', currentTerm := currentTerm s + 1\<rparr>"
  define ps where "ps = after_candidate_loop (Peers s)"
  obtain x ps1 s4 where cl: "candidate_loop (Peers s) s3 = (x, ps1, s4)"
    by (cases "candidate_loop (Peers s) s3")
  have x: "x = None" and ps1: "ps1 = ps"
    using candidate_loop_result [of "Peers s" s3] cl
    by (simp_all add: ps_def after_candidate_loop_def)
  have "only_RPC s3 s4" using candidate_loop_only [of s3 "Peers s"] cl by simp
  then have s4: "s4 = s3\<lparr>RPC := RPC s4\<rparr>" by (simp add: only_RPC_def)
  define s4' where "s4' = s4\<lparr>Peers := ps\<rparr>"
  have s4': "s4' = s3\<lparr>RPC := RPC s4, Peers := ps\<rparr>"
    unfolding s4'_def by (intro service.equality) (simp_all add: only_RPC_fields [OF \<open>only_RPC s3 s4\<close>])
  have esc: "enter_state_candidate s =
      (case evalute_election s4' of
         (Some e, s5) \<Rightarrow> (Some e, s5)
       | (None, s5) \<Rightarrow>
           (if State s5 = ''C'' then
              (let (d, s6) = get_election_timeout s5;
                   s7 = s6\<lparr>ElectionTimer := timer_restart d (ElectionTimer s6)\<rparr>
               in (None, s7\<lparr>HeartBeatTimer := timer_restart (HeartBeatTimeout s7) (HeartBeatTimer s7)\<rparr>))
            else (None, s5)))"
    using cl x ps1
    by (simp add: enter_state_candidate_def Let_def warn_def s3_def [symmetric] s4'_def
        del: candidate_loop.simps)
  have st: "State s4' = ''C''" by (simp add: s4' s3_def)
  show "fst (enter_state_candidate s) = None"
  proof (cases "majority ps")
    case True
    then have "evalute_election s4' = enter_state_leader s4'"
      using st by (simp add: evalute_election_def majority_def s4' Let_def)
    moreover have "State (snd (enter_state_leader s4')) = ''L''"
      by (subst enter_state_leader_char(2)) simp
    ultimately show ?thesis
      using enter_state_leader_char(1) [of s4'] unfolding esc
      by (cases "enter_state_leader s4'") (simp add: )
  next
    case False
    then have "evalute_election s4' = (None, s4')"
      using st by (simp add: evalute_election_def majority_def s4' Let_def)
    then show ?thesis unfolding esc using st
      by (simp add: get_election_timeout_def Let_def)
  qed
  show "snd (enter_state_candidate s) =
     (if majority (after_candidate_loop (Peers s)) then
        s\<lparr>RPC := RPC (snd (enter_state_candidate s)),
          State := ''L'', currentTerm := currentTerm s + 1,
          Peers := after_candidate_loop (Peers s),
          ElectionTimer := None, HeartBeatTimer := Some (HeartBeatTimeout s),
          SvcLog := SvcLog s @ [Entering_candidate (State s) (currentTerm s + 1),
                                Entering_leader ''C'' (currentTerm s + 1)]\<rparr>
      else
        s\<lparr>RPC := RPC (snd (enter_state_candidate s)),
          State := ''C'', currentTerm := currentTerm s + 1,
          Peers := after_candidate_loop (Peers s),
          ElectionTimer := Some (randint (fst (ElectionTimerRange s)) (snd (ElectionTimerRange s))
                                   (Random s (Drawn s))),
          HeartBeatTimer := Some (HeartBeatTimeout s),
          Drawn := Drawn s + 1,
          SvcLog := SvcLog s @ [Entering_candidate (State s) (currentTerm s + 1)]\<rparr>)"
  proof (cases "majority ps")
    case True
    then have ee: "evalute_election s4' = enter_state_leader s4'"
      using st by (simp add: evalute_election_def majority_def s4' Let_def)
    obtain s5 where s5: "enter_state_leader s4' = (None, s5)"
      using enter_state_leader_char(1) [of s4'] by (cases "enter_state_leader s4'") simp
    have s5eq: "s5 = s4'\<lparr>RPC := RPC s5,
       State := ''L'', ElectionTimer := None, HeartBeatTimer := Some (HeartBeatTimeout s4'),
       SvcLog := SvcLog s4' @ [Entering_leader (State s4') (currentTerm s4')]\<rparr>"
      using enter_state_leader_char(2) [of s4'] s5 by simp
    have "State s5 = ''L''" by (subst s5eq) simp
    then have r: "enter_state_candidate s = (None, s5)" unfolding esc ee s5 by simp
    have f: "State s5 = ''L''" "ElectionTimer s5 = None" "HeartBeatTimer s5 = Some (HeartBeatTimeout s4')"
      "SvcLog s5 = SvcLog s4' @ [Entering_leader (State s4') (currentTerm s4')]"
      "currentTerm s5 = currentTerm s4'" "Peers s5 = Peers s4'" "Drawn s5 = Drawn s4'"
      "ElectionTimerRange s5 = ElectionTimerRange s4'" "HeartBeatTimeout s5 = HeartBeatTimeout s4'"
      "votedFor s5 = votedFor s4'" "log s5 = log s4'" "commitIndex s5 = commitIndex s4'"
      "lastApplied s5 = lastApplied s4'" "ServerId s5 = ServerId s4'" "Random s5 = Random s4'"
      "service.more s5 = service.more s4'"
      by (subst s5eq, simp)+
    show ?thesis unfolding r using True
      by (simp add: ps_def [symmetric]) (intro service.equality, simp_all add: f s4' s3_def)
  next
    case False
    then have ee: "evalute_election s4' = (None, s4')"
      using st by (simp add: evalute_election_def majority_def s4' Let_def)
    show ?thesis unfolding esc ee using st False
      by (simp add: ps_def [symmetric] get_election_timeout_def Let_def timer_restart_def)
         (intro service.equality, simp_all add: s4' s3_def)
  qed
qed


lemma currentTerm_enter_state_follower [simp]:
  "currentTerm (enter_state_follower s) = currentTerm s"
  by (simp add: enter_state_follower_def get_election_timeout_def warn_def Let_def)

lemma currentTerm_enter_state_leader:
  "currentTerm (snd (enter_state_leader s)) = currentTerm s"
  by (subst enter_state_leader_char(2)) simp

lemma currentTerm_evalute_election:
  "currentTerm (snd (evalute_election s)) = currentTerm s"
  by (simp add: evalute_election_def Let_def currentTerm_enter_state_leader)

lemma currentTerm_enter_state_candidate:
  "currentTerm (snd (enter_state_candidate s)) = currentTerm s + 1"
  by (subst enter_state_candidate_char(2)) simp

lemma resolicit_loop_only: "only_RPC s (snd (resolicit_loop ps s))"
proof (induction ps arbitrary: s)
  case Nil
  show ?case by (simp add: only_RPC_refl)
next
  case (Cons p ps)
  show ?case
  proof (cases "VoteGranted p")
    case True
    then show ?thesis using Cons.IH by simp
  next
    case False
    obtain x s1 where xs: "request_vote p s = (x, s1)" by (cases "request_vote p s")
    then have s1: "only_RPC s s1" using request_vote_only [of s p] by simp
    show ?thesis
    proof (cases x)
      case None
      have "only_RPC s (snd (resolicit_loop ps s1))"
        using only_RPC_trans [OF s1 Cons.IH] .
      then show ?thesis using False xs None by simp
    next
      case (Some e)
      then show ?thesis using False xs s1 by simp
    qed
  qed
qed

lemma currentTerm_on_heartbeat_timeout:
  "currentTerm (snd (on_heartbeat_timeout s)) = currentTerm s"
proof -
  define body where
    "body = (if State s = ''L'' then send_heartbeat s
             else if State s = ''C'' then resolicit_loop (Peers s) s
             else (None, warn (No_heartbeat_needed (State s)) s))"
  have "currentTerm (snd body) = currentTerm s"
    unfolding body_def
    using only_RPC_fields(6) [OF send_heartbeat_only [of s]]
          only_RPC_fields(6) [OF resolicit_loop_only [of s "Peers s"]]
    by (simp add: warn_def)
  then show ?thesis
    unfolding on_heartbeat_timeout_def body_def [symmetric]
    by (cases body) (auto split: option.splits)
qed

lemma currentTerm_append_entries_server:
  "currentTerm s \<le> currentTerm (snd (append_entries_server params s))"
  by (auto simp: append_entries_server_def get_election_timeout_def warn_def Let_def
           split: sum.splits option.splits)

lemma currentTerm_request_vote_server:
  "currentTerm (snd (request_vote_server params s)) = currentTerm s"
  by (auto simp: request_vote_server_def warn_def Let_def split: sum.splits option.splits)

lemma currentTerm_append_entries_result:
  "currentTerm (snd (append_entries_result a params s)) = currentTerm s"
  by (auto simp: append_entries_result_def warn_def Let_def split: sum.splits option.splits)

lemma currentTerm_request_vote_result:
  "currentTerm (snd (request_vote_result a params s)) = currentTerm s"
  by (auto simp: request_vote_result_def warn_def Let_def currentTerm_evalute_election
           split: sum.splits option.splits)

lemma snd_raised [simp]: "snd (raised out) = snd out"
  by (cases out) (auto simp: raised_def split: sum.splits)

lemma currentTerm_step: "currentTerm s \<le> currentTerm (snd (step ev s))"
proof (cases ev)
  case Election_timeout
  then show ?thesis
    by (simp add: on_election_timeout_def currentTerm_enter_state_candidate)
next
  case Heartbeat_timeout
  then show ?thesis by (simp add: currentTerm_on_heartbeat_timeout)
next
  case (AppendEntries_request params)
  then show ?thesis by (simp add: currentTerm_append_entries_server)
next
  case (RequestVote_request params)
  then show ?thesis by (simp add: currentTerm_request_vote_server)
next
  case (AppendEntries_reply a params)
  then show ?thesis by (simp add: currentTerm_append_entries_result)
next
  case (RequestVote_reply a params)
  then show ?thesis by (simp add: currentTerm_request_vote_result)
qed


lemma randint_range: "a \<le> b \<Longrightarrow> a \<le> randint a b x \<and> randint a b x \<le> b"
proof -
  assume ab: "a \<le> b"
  then have pos: "0 < nat (b - a + 1)" by simp
  have "x mod nat (b - a + 1) < nat (b - a + 1)" using pos by (rule mod_less_divisor)
  then have "int (x mod nat (b - a + 1)) < b - a + 1" using ab by linarith
  then show ?thesis by (simp add: randint_def)
qed

lemma enter_state_candidate_fields:
  "votedFor (snd (enter_state_candidate s)) = votedFor s"
  "log (snd (enter_state_candidate s)) = log s"
  "commitIndex (snd (enter_state_candidate s)) = commitIndex s"
  "lastApplied (snd (enter_state_candidate s)) = lastApplied s"
  "ServerId (snd (enter_state_candidate s)) = ServerId s"
  "ElectionTimerRange (snd (enter_state_candidate s)) = ElectionTimerRange s"
  "HeartBeatTimeout (snd (enter_state_candidate s)) = HeartBeatTimeout s"
  "Random (snd (enter_state_candidate s)) = Random s"
  "service.more (snd (enter_state_candidate s)) = service.more s"
  "Peers (snd (enter_state_candidate s)) = after_candidate_loop (Peers s)"
  "currentTerm (snd (enter_state_candidate s)) = currentTerm s + 1"
  "State (snd (enter_state_candidate s)) = (if majority (after_candidate_loop (Peers s)) then ''L'' else ''C'')"
  by (subst enter_state_candidate_char(2), simp)+

lemmas role_defs =
  initialize_def service_init_def Peer_def RPC_init_def enter_state_follower_def
  get_election_timeout_def warn_def timer_stop_def timer_restart_def timer_start_def
  on_election_timeout_def enter_state_candidate_def request_vote_def rpc_call_def call_def
  sendto_def evalute_election_def enter_state_leader_def send_heartbeat_def append_entries_def
  request_vote_result_def append_entries_result_def request_vote_server_def
  append_entries_server_def on_heartbeat_timeout_def raised_def Let_def AssertionError_def

lemma Sent_rpc_dispatch_result [simp]:
  "Sent (snd (rpc_dispatch_result a i v r)) = Sent r"
  by (auto simp: rpc_dispatch_result_def Let_def split: sum.splits option.splits prod.splits)

lemma Sent_rpc_dispatch_error [simp]:
  "Sent (snd (rpc_dispatch_error a i v r)) = Sent r"
  by (auto simp: rpc_dispatch_error_def Let_def split: sum.splits option.splits prod.splits)

lemma try_block_Sent: "Sent (snd (snd (try_block a loaded r))) = Sent r"
proof (cases loaded)
  case (Inl e)
  then show ?thesis by (simp add: try_block_def)
next
  case (Inr v)
  show ?thesis
  proof (cases v)
    case (JDict d)
    obtain x1 r1 where d1: "rpc_dispatch_result a (dict_get d ''id'') (dict_get d ''result'') r = (x1, r1)"
      by (cases "rpc_dispatch_result a (dict_get d ''id'') (dict_get d ''result'') r")
    obtain x2 r2 where d2: "rpc_dispatch_error a (dict_get d ''id'') (dict_get d ''error'') r = (x2, r2)"
      by (cases "rpc_dispatch_error a (dict_get d ''id'') (dict_get d ''error'') r")
    have "Sent r1 = Sent r" using Sent_rpc_dispatch_result [of a "dict_get d ''id''" "dict_get d ''result''" r] d1 by simp
    moreover have "Sent r2 = Sent r" using Sent_rpc_dispatch_error [of a "dict_get d ''id''" "dict_get d ''error''" r] d2 by simp
    ultimately show ?thesis using Inr JDict d1 d2
      by (simp add: try_block_def Let_def split: sum.splits option.splits)
  qed (simp_all add: Inr try_block_def)
qed

lemma try_block_propagate:
  "fst (snd (try_block a loaded r)) = Inl e \<Longrightarrow> fst (try_block a loaded r) = carried_method loaded"
proof (cases loaded)
  case (Inl e')
  then show ?thesis by (simp add: try_block_def carried_method_def)
next
  case (Inr v)
  assume raised: "fst (snd (try_block a loaded r)) = Inl e"
  show ?thesis
  proof (cases v)
    case (JDict d)
    then show ?thesis using Inr raised
      by (auto simp: try_block_def carried_method_def Let_def
               split: sum.splits option.splits prod.splits if_splits)
  qed (simp_all add: Inr try_block_def carried_method_def)
qed

lemma on_recv_one_raised:
  assumes "fst (snd (try_block a loaded r)) = Inl e"
  shows "Sent (snd (on_recv_one a loaded r)) =
           Sent r @ (if carried_method loaded
                     then [(a, JDict [(''id'', request_id_of loaded), (''jsonrpc'', JStr ''2.0''),
                                      (''error'', error_of e)])]
                     else [])"
proof -
  obtain pe out r1 where tb: "try_block a loaded r = (pe, out, r1)"
    by (cases "try_block a loaded r")
  have out: "out = Inl e" using assms tb by simp
  have pe: "pe = carried_method loaded" using try_block_propagate [OF assms] tb by simp
  have r1: "Sent r1 = Sent r" using try_block_Sent [of a loaded r] tb by simp
  show ?thesis
    by (cases e) (simp_all add: on_recv_one_def tb out pe r1 reply_def error_of_def Let_def)
qed

lemma find_peer_first:
  "i < length ps \<Longrightarrow> Address (ps ! i) = Some a \<Longrightarrow> (\<forall>j<i. Address (ps ! j) \<noteq> Some a)
   \<Longrightarrow> find_peer a ps = Some i"
proof (induction ps arbitrary: i)
  case Nil
  then show ?case by simp
next
  case (Cons p ps)
  show ?case
  proof (cases i)
    case 0
    then show ?thesis using Cons.prems by simp
  next
    case (Suc k)
    have p: "Address p \<noteq> Some a" using Cons.prems(3) Suc by auto
    have "find_peer a ps = Some k"
    proof (rule Cons.IH)
      show "k < length ps" using Cons.prems(1) Suc by simp
      show "Address (ps ! k) = Some a" using Cons.prems(2) Suc by simp
      show "\<forall>j<k. Address (ps ! j) \<noteq> Some a"
      proof (intro allI impI)
        fix j assume "j < k"
        then have "Suc j < i" using Suc by simp
        then have "Address ((p # ps) ! Suc j) \<noteq> Some a" using Cons.prems(3) by blast
        then show "Address (ps ! j) \<noteq> Some a" by simp
      qed
    qed
    then show ?thesis using p Suc by simp
  qed
qed

lemma str_nat_1: "str_nat (Suc 0) = ''1''"
  by code_simp

subsection \<open>The properties, by number\<close>

text \<open>
  C1. The handler of an inbound AppendEntries request, \<^verbatim>\<open>append_entries_server\<close>, for
  params that carry a term (an integer) and a leaderId. If the term is strictly less than currentTerm, the handler
  replies success=false with the current term and changes nothing in the node (it writes
  one warning to the log). Otherwise it replies success=true, sets currentTerm to the
  request's term, is Follower afterwards, and has restarted the election timer with a
  fresh draw: a node that was Follower already changes in nothing else; a node that was
  not enters Follower first (heartbeat timer stopped, the transition logged), and the
  election timer is restarted once more after that.
\<close>

theorem C1_append_entries_server:
  assumes "map_of params ''term'' = Some (JInt t)"
    and "map_of params ''leaderId'' = Some leader"
  shows "(t < currentTerm s \<longrightarrow>
            append_entries_server (JDict params) s =
              (Inr (JDict [(''term'', JInt (currentTerm s)), (''success'', JBool False),
                           (''serverId'', JStr (ServerId s))]),
               s\<lparr>SvcLog := SvcLog s @ [AppendEntries_old_term (JInt t) (currentTerm s)]\<rparr>))
       \<and> (currentTerm s \<le> t \<longrightarrow>
            fst (append_entries_server (JDict params) s) =
              Inr (JDict [(''term'', JInt (currentTerm s)), (''success'', JBool True),
                          (''serverId'', JStr (ServerId s))])
            \<and> snd (append_entries_server (JDict params) s) =
                (if State s = ''F'' then
                   s\<lparr>currentTerm := t,
                     ElectionTimer := Some (randint (fst (ElectionTimerRange s)) (snd (ElectionTimerRange s))
                                              (Random s (Drawn s))),
                     Drawn := Drawn s + 1\<rparr>
                 else
                   s\<lparr>currentTerm := t, State := ''F'', HeartBeatTimer := None,
                     ElectionTimer := Some (randint (fst (ElectionTimerRange s)) (snd (ElectionTimerRange s))
                                              (Random s (Drawn s + 1))),
                     Drawn := Drawn s + 2,
                     SvcLog := SvcLog s @ [Entering_follower (State s)]\<rparr>))"
proof (intro conjI impI)
  assume "t < currentTerm s"
  then show "append_entries_server (JDict params) s =
              (Inr (JDict [(''term'', JInt (currentTerm s)), (''success'', JBool False),
                           (''serverId'', JStr (ServerId s))]),
               s\<lparr>SvcLog := SvcLog s @ [AppendEntries_old_term (JInt t) (currentTerm s)]\<rparr>)"
    using assms by (simp add: append_entries_server_def warn_def)
next
  assume "currentTerm s \<le> t"
  then show "fst (append_entries_server (JDict params) s) =
              Inr (JDict [(''term'', JInt (currentTerm s)), (''success'', JBool True),
                          (''serverId'', JStr (ServerId s))])"
    using assms by (simp add: append_entries_server_def Let_def split: prod.splits)
next
  assume "currentTerm s \<le> t"
  then show "snd (append_entries_server (JDict params) s) =
                (if State s = ''F'' then
                   s\<lparr>currentTerm := t,
                     ElectionTimer := Some (randint (fst (ElectionTimerRange s)) (snd (ElectionTimerRange s))
                                              (Random s (Drawn s))),
                     Drawn := Drawn s + 1\<rparr>
                 else
                   s\<lparr>currentTerm := t, State := ''F'', HeartBeatTimer := None,
                     ElectionTimer := Some (randint (fst (ElectionTimerRange s)) (snd (ElectionTimerRange s))
                                              (Random s (Drawn s + 1))),
                     Drawn := Drawn s + 2,
                     SvcLog := SvcLog s @ [Entering_follower (State s)]\<rparr>)"
  proof (cases "State s = ''F''")
    case True
    with \<open>currentTerm s \<le> t\<close> assms show ?thesis
      by (simp add: append_entries_server_def Let_def get_election_timeout_def timer_restart_def)
  next
    case False
    with \<open>currentTerm s \<le> t\<close> assms show ?thesis
      by (simp add: append_entries_server_def Let_def enter_state_follower_def
            get_election_timeout_def warn_def timer_restart_def timer_stop_def;
          (intro service.equality; simp))
  qed
qed

theorem C1_witness:
  "currentTerm example_node = 0 \<and> State example_node = ''F''
   \<and> append_entries_server (heartbeat_request 5 ''n2:7002'') example_node =
       (Inr (JDict [(''term'', JInt 0), (''success'', JBool True), (''serverId'', JStr ''n1:7001'')]),
        example_node\<lparr>currentTerm := 5, ElectionTimer := Some 157, Drawn := 2\<rparr>)
   \<and> currentTerm example_term5 = 5
   \<and> append_entries_server (heartbeat_request 3 ''n3:7003'') example_term5 =
       (Inr (JDict [(''term'', JInt 5), (''success'', JBool False), (''serverId'', JStr ''n1:7001'')]),
        example_term5\<lparr>SvcLog := SvcLog example_term5 @ [AppendEntries_old_term (JInt 3) 5]\<rparr>)"
proof -
  have n: "currentTerm example_node = 0" "State example_node = ''F''"
    "ServerId example_node = ''n1:7001''" "ElectionTimerRange example_node = (150, 300)"
    "Random example_node = (\<lambda>n. 7)" "Drawn example_node = 1"
    by (simp_all add: example_node_def role_defs)
  have t1: "map_of [(''term'', JInt 5), (''leaderId'', JStr ''n2:7002''), (''prevLogIndex'', JInt 1),
            (''prevLogTerm'', JInt 1), (''entries'', JList []), (''leaderCommitIndex'', JInt 0)]
            ''term'' = Some (JInt 5)" by simp
  have l1: "map_of [(''term'', JInt 5), (''leaderId'', JStr ''n2:7002''), (''prevLogIndex'', JInt 1),
            (''prevLogTerm'', JInt 1), (''entries'', JList []), (''leaderCommitIndex'', JInt 0)]
            ''leaderId'' = Some (JStr ''n2:7002'')" by simp
  have t2: "map_of [(''term'', JInt 3), (''leaderId'', JStr ''n3:7003''), (''prevLogIndex'', JInt 1),
            (''prevLogTerm'', JInt 1), (''entries'', JList []), (''leaderCommitIndex'', JInt 0)]
            ''term'' = Some (JInt 3)" by simp
  have l2: "map_of [(''term'', JInt 3), (''leaderId'', JStr ''n3:7003''), (''prevLogIndex'', JInt 1),
            (''prevLogTerm'', JInt 1), (''entries'', JList []), (''leaderCommitIndex'', JInt 0)]
            ''leaderId'' = Some (JStr ''n3:7003'')" by simp
  have first: "append_entries_server (heartbeat_request 5 ''n2:7002'') example_node =
       (Inr (JDict [(''term'', JInt 0), (''success'', JBool True), (''serverId'', JStr ''n1:7001'')]),
        example_node\<lparr>currentTerm := 5, ElectionTimer := Some 157, Drawn := 2\<rparr>)"
    using C1_append_entries_server [OF t1 l1, of example_node]
    by (simp add: n heartbeat_request_def randint_def prod_eq_iff)
  have m: "currentTerm example_term5 = 5" "ServerId example_term5 = ''n1:7001''"
    by (simp_all add: example_term5_def first n)
  have second: "append_entries_server (heartbeat_request 3 ''n3:7003'') example_term5 =
       (Inr (JDict [(''term'', JInt 5), (''success'', JBool False), (''serverId'', JStr ''n1:7001'')]),
        example_term5\<lparr>SvcLog := SvcLog example_term5 @ [AppendEntries_old_term (JInt 3) 5]\<rparr>)"
    using C1_append_entries_server [OF t2 l2, of example_term5]
    by (simp add: m heartbeat_request_def)
  show ?thesis using n first m second by simp
qed

text \<open>
  C2, on the code. The example node grants its vote to n2 in term 1. The same RequestVote
  request of n2, repeated in the same term, is then answered voteGranted=false and
  changes nothing, like the request of the other candidate n3: only the first request of
  a candidate is granted.
\<close>

theorem C2_repeated_request_refused:
  "fst (request_vote_server (vote_request 1 ''n2:7002'') example_node) =
     Inr (JDict [(''term'', JInt 1), (''voteGranted'', JBool True), (''serverId'', JStr ''n1:7001'')])
   \<and> votedFor example_voted = JStr ''n2:7002''
   \<and> currentTerm example_voted = currentTerm example_node
   \<and> request_vote_server (vote_request 1 ''n2:7002'') example_voted =
       (Inr (JDict [(''term'', JInt 1), (''voteGranted'', JBool False), (''serverId'', JStr ''n1:7001'')]),
        example_voted)
   \<and> request_vote_server (vote_request 1 ''n3:7003'') example_voted =
       (Inr (JDict [(''term'', JInt 1), (''voteGranted'', JBool False), (''serverId'', JStr ''n1:7001'')]),
        example_voted)"
  by (simp add: example_voted_def example_node_def vote_request_def role_defs)

text \<open>
  C3, on the code. A result frame whose id is that of the outstanding call is delivered:
  the record leaves the register and the call is completed with the result value, and that
  is all. The runtime has no registry of result handlers; the peer table of the node is as
  before, whereas \<^verbatim>\<open>append_entries_result\<close>, had it been invoked with this reply, would
  have recorded the id of the peer.
\<close>

theorem C3_result_handler_not_invoked:
  "ACallRegister example_pending = [(''AppendEntries:1'', 1)]
   \<and> wait (ACalls example_pending 1) = None
   \<and> on_recv_one (''10.0.0.2'', 7002)
        (result_frame ''AppendEntries:1'' (append_entries_reply 0 ''n2:7002'')) example_pending =
       (True,
        example_pending
          \<lparr>ACallRegister := [],
           ACalls := (ACalls example_pending)
             (1 := (ACalls example_pending 1)
                \<lparr>ReplyEvent := True, Result := Value (append_entries_reply 0 ''n2:7002'')\<rparr>)\<rparr>)
   \<and> Peers (socket_readable
               [((''10.0.0.2'', 7002),
                 result_frame ''AppendEntries:1'' (append_entries_reply 0 ''n2:7002''))]
               (example_node\<lparr>RPC := example_pending\<rparr>)) = Peers example_node
   \<and> Id_peer (Peers example_node ! 1) = JStr ''?''
   \<and> Id_peer (Peers (snd (append_entries_result (''10.0.0.2'', 7002)
                             (append_entries_reply 0 ''n2:7002'') example_node)) ! 1) = JStr ''n2:7002''"
  apply (intro conjI)
       apply (simp add: example_pending_def acall_init_def call_def sendto_def RPC_init_def Let_def str_nat_1)
      apply (simp add: example_pending_def acall_init_def call_def sendto_def RPC_init_def Let_def str_nat_1 wait_def)
     apply (simp add: example_pending_def acall_init_def call_def sendto_def RPC_init_def Let_def str_nat_1
        on_recv_one_def try_block_def result_frame_def dict_get_def rpc_dispatch_result_def
        register_lookup_def register_pop_def send_def append_entries_reply_def)
    apply (simp add: socket_readable_def)
   apply (simp add: example_node_def role_defs)
  apply (simp add: example_node_def append_entries_reply_def role_defs)
  done

text \<open>
  C4. currentTerm never decreases: whatever the node reacts to (an election timeout, which
  makes it Candidate, a heartbeat timeout, an AppendEntries or RequestVote request, an
  AppendEntries or RequestVote reply), with any params and whether or not the handler
  raises, the term after the step is at least the term before; hence also after every
  sequence of such steps.
\<close>

theorem C4_currentTerm_never_decreases:
  "currentTerm s \<le> currentTerm (snd (step ev s))
   \<and> currentTerm s \<le> currentTerm (run evs s)"
proof
  show "currentTerm s \<le> currentTerm (snd (step ev s))" by (rule currentTerm_step)
  show "currentTerm s \<le> currentTerm (run evs s)"
  proof (induction evs arbitrary: s)
    case Nil
    show ?case by simp
  next
    case (Cons e es)
    have "currentTerm s \<le> currentTerm (snd (step e s))" by (rule currentTerm_step)
    also have "\<dots> \<le> currentTerm (run es (snd (step e s)))" by (rule Cons.IH)
    finally show ?case by simp
  qed
qed

theorem C4_witness:
  "currentTerm example_node = 0
   \<and> currentTerm (run example_election example_node) = 1
   \<and> currentTerm example_node \<le> currentTerm (snd (step Election_timeout example_node))
   \<and> currentTerm example_node \<le> currentTerm (run example_election example_node)"
  using C4_currentTerm_never_decreases [of example_node Election_timeout example_election]
  by (simp add: example_node_def example_election_def vote_granted_def role_defs)

text \<open>
  C5, on the code. After \<^verbatim>\<open>finalize\<close> the awaiter of the outstanding call gets the
  cancellation error, but the record is still in the register. A result datagram for its id
  that arrives afterwards is therefore not an unknown result: the record is found and
  removed, the assertion of \<^verbatim>\<open>send\<close> fails on the completed call, and the exception is
  logged. An error datagram fares the same, in \<^verbatim>\<open>send_error\<close>.
\<close>

theorem C5_datagram_after_cancellation:
  "ACallRegister example_pending = [(''AppendEntries:1'', 1)]
   \<and> wait (ACalls (finalize example_pending) 1) = Some (Inl (Exception ''CancelledError'' []))
   \<and> ACallRegister (finalize example_pending) = [(''AppendEntries:1'', 1)]
   \<and> ACallRegister (snd (on_recv_one (''10.0.0.2'', 7002)
        (result_frame ''AppendEntries:1'' (append_entries_reply 0 ''n2:7002''))
        (finalize example_pending))) = []
   \<and> RpcLog (snd (on_recv_one (''10.0.0.2'', 7002)
        (result_frame ''AppendEntries:1'' (append_entries_reply 0 ''n2:7002''))
        (finalize example_pending))) =
        [Exception_during_request (''10.0.0.2'', 7002) AssertionError]
   \<and> ACallRegister (snd (on_recv_one (''10.0.0.2'', 7002)
        (error_frame ''AppendEntries:1'' (RPCError_obj (JInt (- 32601)) (JStr ''Method not found'') JNull))
        (finalize example_pending))) = []
   \<and> RpcLog (snd (on_recv_one (''10.0.0.2'', 7002)
        (error_frame ''AppendEntries:1'' (RPCError_obj (JInt (- 32601)) (JStr ''Method not found'') JNull))
        (finalize example_pending))) =
        [Exception_during_request (''10.0.0.2'', 7002) AssertionError]"
  by (simp add: example_pending_def acall_init_def call_def sendto_def RPC_init_def Let_def str_nat_1
        finalize_def cancel_def wait_def AssertionError_def RPCError_obj_def
        on_recv_one_def try_block_def result_frame_def error_frame_def dict_get_def
        rpc_dispatch_result_def rpc_dispatch_error_def
        register_lookup_def register_pop_def send_def send_error_def append_entries_reply_def)

text \<open>
  C6. An inbound JSON-RPC 2.0 request whose method is neither the built-in Ping nor a key
  of the method registry (and is a value that can be looked up: not a list or a dict) is
  answered with one datagram to the sender: the request's id and the error object with code
  -32601, message "Method not found" and data equal to the method. And whenever the
  processing of a datagram raises, whatever the datagram and the exception, an error reply
  is sent if and only if the frame carried a method: exactly one datagram with the error
  if it did, none if it did not.
\<close>

theorem C6_method_not_found_and_error_replies:
  "(map_of request_obj ''jsonrpc'' = Some (JStr ''2.0'') \<and> map_of request_obj ''method'' = Some method
    \<and> method \<noteq> JNull \<and> unhashable method = None
    \<and> method \<noteq> JStr ''Ping'' \<and> \<not> registered method r \<longrightarrow>
      on_recv_one a (Inr (JDict request_obj)) r =
        (True,
         r\<lparr>Sent := Sent r @
             [(a, JDict [(''id'', dict_get request_obj ''id''), (''jsonrpc'', JStr ''2.0''),
                         (''error'', JDict [(''code'', JInt (- 32601)),
                                            (''message'', JStr ''Method not found''),
                                            (''data'', method)])])]\<rparr>))
   \<and> (fst (snd (try_block a loaded r)) = Inl e \<longrightarrow>
        Sent (snd (on_recv_one a loaded r)) =
           Sent r @ (if carried_method loaded
                     then [(a, JDict [(''id'', request_id_of loaded), (''jsonrpc'', JStr ''2.0''),
                                      (''error'', error_of e)])]
                     else []))"
proof (intro conjI impI)
  assume h: "map_of request_obj ''jsonrpc'' = Some (JStr ''2.0'') \<and> map_of request_obj ''method'' = Some method
    \<and> method \<noteq> JNull \<and> unhashable method = None
    \<and> method \<noteq> JStr ''Ping'' \<and> \<not> registered method r"
  then have dm: "rpc_dispatch_method a method (dict_get request_obj ''params'') r =
      Inl (RPCError (RPCError_obj (JInt (- 32601)) (JStr ''Method not found'') method))"
    by (cases "method") (simp_all add: rpc_dispatch_method_def registered_def)
  have "try_block a (Inr (JDict request_obj)) r =
      (True, Inl (RPCError (RPCError_obj (JInt (- 32601)) (JStr ''Method not found'') method)), r)"
    using h dm by (simp add: try_block_def dict_get_def Let_def)
  then show "on_recv_one a (Inr (JDict request_obj)) r =
        (True,
         r\<lparr>Sent := Sent r @
             [(a, JDict [(''id'', dict_get request_obj ''id''), (''jsonrpc'', JStr ''2.0''),
                         (''error'', JDict [(''code'', JInt (- 32601)),
                                            (''message'', JStr ''Method not found''),
                                            (''data'', method)])])]\<rparr>)"
    using h by (simp add: on_recv_one_def reply_def request_id_of_def RPCError_obj_def)
next
  assume "fst (snd (try_block a loaded r)) = Inl e"
  then show "Sent (snd (on_recv_one a loaded r)) =
           Sent r @ (if carried_method loaded
                     then [(a, JDict [(''id'', request_id_of loaded), (''jsonrpc'', JStr ''2.0''),
                                      (''error'', error_of e)])]
                     else [])"
    by (rule on_recv_one_raised)
qed

theorem C6_witness:
  "on_recv_one (''10.0.0.2'', 7002)
     (Inr (JDict [(''id'', JStr ''Nope:1''), (''jsonrpc'', JStr ''2.0''), (''method'', JStr ''Nope''),
                  (''params'', JNull)])) RPC_init =
     (True,
      RPC_init\<lparr>Sent :=
        [((''10.0.0.2'', 7002),
          JDict [(''id'', JStr ''Nope:1''), (''jsonrpc'', JStr ''2.0''),
                 (''error'', JDict [(''code'', JInt (- 32601)), (''message'', JStr ''Method not found''),
                                    (''data'', JStr ''Nope'')])])]\<rparr>)
   \<and> Sent (snd (on_recv_one (''10.0.0.2'', 7002) (Inr (JList [])) RPC_init)) = []
   \<and> Sent (snd (on_recv_one (''10.0.0.2'', 7002)
        (Inr (JDict [(''id'', JInt 4), (''jsonrpc'', JStr ''2.0''), (''method'', JList [])])) RPC_init)) =
        [((''10.0.0.2'', 7002),
          JDict [(''id'', JInt 4), (''jsonrpc'', JStr ''2.0''),
                 (''error'', JDict [(''code'', JInt (- 32603)),
                    (''message'', JStr (''TypeError:unhashable type: '' @ quoted ''list''))])])]"
proof -
  have s0: "Sent RPC_init = []" by (simp add: RPC_init_def)
  have a: "map_of [(''id'', JStr ''Nope:1''), (''jsonrpc'', JStr ''2.0''), (''method'', JStr ''Nope''),
                  (''params'', JNull)] ''jsonrpc'' = Some (JStr ''2.0'')
     \<and> map_of [(''id'', JStr ''Nope:1''), (''jsonrpc'', JStr ''2.0''), (''method'', JStr ''Nope''),
                  (''params'', JNull)] ''method'' = Some (JStr ''Nope'')
     \<and> JStr ''Nope'' \<noteq> JNull \<and> unhashable (JStr ''Nope'') = None
     \<and> JStr ''Nope'' \<noteq> JStr ''Ping'' \<and> \<not> registered (JStr ''Nope'') RPC_init"
    by (simp add: registered_def RPC_init_def)
  have b: "fst (snd (try_block (''10.0.0.2'', 7002) (Inr (JList [])) RPC_init)) =
             Inl (no_attribute_get (JList []))"
    by (simp add: try_block_def)
  have c: "fst (snd (try_block (''10.0.0.2'', 7002)
        (Inr (JDict [(''id'', JInt 4), (''jsonrpc'', JStr ''2.0''), (''method'', JList [])])) RPC_init)) =
             Inl (unhashable_type ''list'')"
    by (simp add: try_block_def dict_get_def rpc_dispatch_method_def)
  have first: "on_recv_one (''10.0.0.2'', 7002)
     (Inr (JDict [(''id'', JStr ''Nope:1''), (''jsonrpc'', JStr ''2.0''), (''method'', JStr ''Nope''),
                  (''params'', JNull)])) RPC_init =
     (True,
      RPC_init\<lparr>Sent :=
        [((''10.0.0.2'', 7002),
          JDict [(''id'', JStr ''Nope:1''), (''jsonrpc'', JStr ''2.0''),
                 (''error'', JDict [(''code'', JInt (- 32601)), (''message'', JStr ''Method not found''),
                                    (''data'', JStr ''Nope'')])])]\<rparr>)"
    using C6_method_not_found_and_error_replies
      [of "[(''id'', JStr ''Nope:1''), (''jsonrpc'', JStr ''2.0''), (''method'', JStr ''Nope''),
            (''params'', JNull)]" "JStr ''Nope''" RPC_init "(''10.0.0.2'', 7002)"] a
    by (simp add: s0 dict_get_def)
  have second: "Sent (snd (on_recv_one (''10.0.0.2'', 7002) (Inr (JList [])) RPC_init)) = []"
    using C6_method_not_found_and_error_replies
      [of "[]" JNull RPC_init "(''10.0.0.2'', 7002)" "Inr (JList [])" "no_attribute_get (JList [])"] b
    by (simp add: s0 carried_method_def)
  have third: "Sent (snd (on_recv_one (''10.0.0.2'', 7002)
        (Inr (JDict [(''id'', JInt 4), (''jsonrpc'', JStr ''2.0''), (''method'', JList [])])) RPC_init)) =
        [((''10.0.0.2'', 7002),
          JDict [(''id'', JInt 4), (''jsonrpc'', JStr ''2.0''),
                 (''error'', JDict [(''code'', JInt (- 32603)),
                    (''message'', JStr (''TypeError:unhashable type: '' @ quoted ''list''))])])]"
    using C6_method_not_found_and_error_replies
      [of "[]" JNull RPC_init "(''10.0.0.2'', 7002)"
          "Inr (JDict [(''id'', JInt 4), (''jsonrpc'', JStr ''2.0''), (''method'', JList [])])"
          "unhashable_type ''list''"] c
    by (simp add: s0 carried_method_def dict_get_def request_id_of_def error_of_def
          unhashable_type_def TypeError_def)
  show ?thesis using first second third by simp
qed

text \<open>
  C7. The built-in Ping method answers the string "Pong" when params is null, and it
  answers every non-null JSON value v with v itself, unchanged; the empty list is such a
  value, so Ping with params [] answers [] and not "Pong". The substitution of "Pong" is
  made for null alone, whatever the address and the state of the runtime.
\<close>

theorem C7_ping_pong_only_for_null:
  "rpc_dispatch_method a (JStr ''Ping'') JNull r = Inr (JStr ''Pong'')
   \<and> (\<forall>v. v \<noteq> JNull \<longrightarrow> rpc_dispatch_method a (JStr ''Ping'') v r = Inr v)
   \<and> rpc_dispatch_method a (JStr ''Ping'') (JList []) r = Inr (JList [])"
  by (simp add: rpc_dispatch_method_def)

theorem C7_ping_witness:
  "JList [JInt 1, JStr ''x'', JNull] \<noteq> JNull
   \<and> rpc_dispatch_method (''10.0.0.2'', 7000) (JStr ''Ping'') (JList [JInt 1, JStr ''x'', JNull])
        RPC_init
      = Inr (JList [JInt 1, JStr ''x'', JNull])"
  using C7_ping_pong_only_for_null
    [of "(''10.0.0.2'', 7000)"
        RPC_init]
  by simp

text \<open>
  C8, as amended. The handler of an AppendEntries reply takes the first peer of the table
  whose address is the sender's. If that peer's stored id is still "?", the peer adopts
  the serverId of the reply (and the fact is logged). If the stored id is known and
  differs from the reply's serverId, the handler logs a warning and the stored id stays
  as it was. If they are equal nothing happens.
\<close>

theorem C8_append_entries_result_learns_id:
  assumes "map_of params ''serverId'' = Some serverId"
    and "i < length (Peers s)" and "Address (Peers s ! i) = Some a"
    and "\<forall>j<i. Address (Peers s ! j) \<noteq> Some a"
  shows "append_entries_result a (JDict params) s =
           (None,
            if Id_peer (Peers s ! i) = JStr ''?'' then
              s\<lparr>Peers := (Peers s)[i := (Peers s ! i)\<lparr>Id_peer := serverId\<rparr>],
                SvcLog := SvcLog s @ [Peer_now_known a serverId]\<rparr>
            else if Id_peer (Peers s ! i) \<noteq> serverId then
              s\<lparr>SvcLog := SvcLog s @ [Server_id_changed (Id_peer (Peers s ! i)) serverId a]\<rparr>
            else s)"
proof -
  have "find_peer a (Peers s) = Some i" using assms(2-4) by (rule find_peer_first)
  then show ?thesis using assms(1)
    by (simp add: append_entries_result_def Let_def warn_def; (intro service.equality; simp))
qed

text \<open>
  C8 as first stated, with the stored id updated to the new value, fails: the peer at
  10.0.0.2 is known as n2:7002, a reply from that address names n9:7002, and the stored id
  is still n2:7002 afterwards.
\<close>

theorem C8_counterexample:
  "Id_peer (Peers example_known ! 1) = JStr ''n2:7002''
   \<and> Address (Peers example_known ! 1) = Some (''10.0.0.2'', 7002)
   \<and> Id_peer (Peers (snd (append_entries_result (''10.0.0.2'', 7002)
                              (append_entries_reply 0 ''n9:7002'') example_known)) ! 1)
       = JStr ''n2:7002''
   \<and> Id_peer (Peers (snd (append_entries_result (''10.0.0.2'', 7002)
                              (append_entries_reply 0 ''n9:7002'') example_known)) ! 1)
       \<noteq> JStr ''n9:7002''"
  by (simp add: example_known_def example_node_def append_entries_reply_def role_defs)

theorem C8_witness:
  "Id_peer (Peers example_node ! 1) = JStr ''?''
   \<and> Peers (snd (append_entries_result (''10.0.0.2'', 7002)
                    (append_entries_reply 0 ''n2:7002'') example_node))
       = (Peers example_node)[1 := (Peers example_node ! 1)\<lparr>Id_peer := JStr ''n2:7002''\<rparr>]
   \<and> Id_peer (Peers example_known ! 1) = JStr ''n2:7002''
   \<and> snd (append_entries_result (''10.0.0.2'', 7002) (append_entries_reply 0 ''n9:7002'') example_known)
       = example_known\<lparr>SvcLog := SvcLog example_known @
            [Server_id_changed (JStr ''n2:7002'') (JStr ''n9:7002'') (''10.0.0.2'', 7002)]\<rparr>"
proof -
  have p: "Peers example_node =
      [\<lparr>Address = None, Id_peer = JStr ''n1:7001'', VoteGranted = False\<rparr>,
       \<lparr>Address = Some (''10.0.0.2'', 7002), Id_peer = JStr ''?'', VoteGranted = False\<rparr>,
       \<lparr>Address = Some (''10.0.0.3'', 7003), Id_peer = JStr ''?'', VoteGranted = False\<rparr>]"
    by (simp add: example_node_def role_defs)
  have q: "Peers example_known =
      [\<lparr>Address = None, Id_peer = JStr ''n1:7001'', VoteGranted = False\<rparr>,
       \<lparr>Address = Some (''10.0.0.2'', 7002), Id_peer = JStr ''n2:7002'', VoteGranted = False\<rparr>,
       \<lparr>Address = Some (''10.0.0.3'', 7003), Id_peer = JStr ''?'', VoteGranted = False\<rparr>]"
    by (simp add: example_known_def append_entries_reply_def append_entries_result_def p warn_def)
  have h1: "map_of [(''term'', JInt 0), (''success'', JBool True), (''serverId'', JStr ''n2:7002'')]
               ''serverId'' = Some (JStr ''n2:7002'')" by simp
  have h2: "map_of [(''term'', JInt 0), (''success'', JBool True), (''serverId'', JStr ''n9:7002'')]
               ''serverId'' = Some (JStr ''n9:7002'')" by simp
  have i1: "1 < length (Peers example_node)" by (simp add: p)
  have a1: "Address (Peers example_node ! 1) = Some (''10.0.0.2'', 7002)" by (simp add: p)
  have f1: "\<forall>j<1. Address (Peers example_node ! j) \<noteq> Some (''10.0.0.2'', 7002)" by (simp add: p)
  have i2: "1 < length (Peers example_known)" by (simp add: q)
  have a2: "Address (Peers example_known ! 1) = Some (''10.0.0.2'', 7002)" by (simp add: q)
  have f2: "\<forall>j<1. Address (Peers example_known ! j) \<noteq> Some (''10.0.0.2'', 7002)" by (simp add: q)
  show ?thesis
    using C8_append_entries_result_learns_id [OF h1 i1 a1 f1]
          C8_append_entries_result_learns_id [OF h2 i2 a2 f2]
    by (simp add: append_entries_reply_def p q)
qed

text \<open>
  C9, on the code. In the example election the node becomes Leader of term 1 with the
  vote of one peer while the flag of the other peer is still unset. The granting reply of
  that other peer, for the same term, then arrives at a Leader: \<^verbatim>\<open>request_vote_result\<close>
  flips the flag and calls \<^verbatim>\<open>evalute_election\<close>, whose assertion fails. Every event of
  the execution is enabled where it happens. The call from \<^verbatim>\<open>enter_state_candidate\<close>, on
  the other hand, never fails the assertion: that function never raises.
\<close>

theorem C9_tally_while_leader:
  "feasible (example_election @ [RequestVote_reply (''10.0.0.3'', 7003) (vote_granted 1 ''n3:7003'')])
     example_node
   \<and> State (run example_election example_node) = ''L''
   \<and> currentTerm (run example_election example_node) = 1
   \<and> \<not> VoteGranted (Peers (run example_election example_node) ! 2)
   \<and> fst (request_vote_result (''10.0.0.3'', 7003) (vote_granted 1 ''n3:7003'')
            (run example_election example_node)) = Some AssertionError
   \<and> fst (evalute_election (run example_election example_node)) = Some AssertionError
   \<and> (\<forall>s. fst (enter_state_candidate s) = None)"
proof -
  have always: "\<forall>s. fst (enter_state_candidate s) = None"
    by (simp add: enter_state_candidate_char(1))
  have here: "feasible (example_election @ [RequestVote_reply (''10.0.0.3'', 7003) (vote_granted 1 ''n3:7003'')])
     example_node
   \<and> State (run example_election example_node) = ''L''
   \<and> currentTerm (run example_election example_node) = 1
   \<and> \<not> VoteGranted (Peers (run example_election example_node) ! 2)
   \<and> fst (request_vote_result (''10.0.0.3'', 7003) (vote_granted 1 ''n3:7003'')
            (run example_election example_node)) = Some AssertionError
   \<and> fst (evalute_election (run example_election example_node)) = Some AssertionError"
    by (simp add: example_node_def example_election_def vote_granted_def role_defs)
  from here always show ?thesis by blast
qed

text \<open>
  C10. \<^verbatim>\<open>enter_state_candidate\<close> never raises, and of the Raft state of the node (role,
  persistent state, volatile state, peer table) it changes the role, currentTerm (by
  one) and the peers' VoteGranted flags only: votedFor, the log, commitIndex,
  lastApplied, the server id and every peer's address and id are as before. What else
  moves are the two timers it restarts, the RPC runtime through which it sends the
  RequestVote requests, the random draws and the log lines. The node records no vote for
  itself: if votedFor was unset before the election, a RequestVote request of any
  candidate with a term not below the node's new term is granted, and votedFor becomes
  that candidate.
\<close>

theorem C10_candidate_leaves_votedFor:
  assumes "s' = snd (enter_state_candidate s)"
  shows "fst (enter_state_candidate s) = None
     \<and> s' = s\<lparr>State := State s', currentTerm := currentTerm s + 1,
              Peers := map (\<lambda>p. p\<lparr>VoteGranted := (Address p = None)\<rparr>) (Peers s),
              ElectionTimer := ElectionTimer s', HeartBeatTimer := HeartBeatTimer s',
              RPC := RPC s', Drawn := Drawn s', SvcLog := SvcLog s'\<rparr>
     \<and> (State s' = ''C'' \<or> State s' = ''L'')
     \<and> votedFor s' = votedFor s
     \<and> (votedFor s = JNull \<and> map_of params ''term'' = Some (JInt t)
          \<and> currentTerm s' \<le> t \<and> map_of params ''candidateId'' = Some c \<longrightarrow>
          fst (request_vote_server (JDict params) s') =
            Inr (JDict [(''term'', JInt t), (''voteGranted'', JBool True), (''serverId'', JStr (ServerId s))])
          \<and> votedFor (snd (request_vote_server (JDict params) s')) = c)"
proof (intro conjI impI)
  show "fst (enter_state_candidate s) = None" by (rule enter_state_candidate_char(1))
  show "s' = s\<lparr>State := State s', currentTerm := currentTerm s + 1,
              Peers := map (\<lambda>p. p\<lparr>VoteGranted := (Address p = None)\<rparr>) (Peers s),
              ElectionTimer := ElectionTimer s', HeartBeatTimer := HeartBeatTimer s',
              RPC := RPC s', Drawn := Drawn s', SvcLog := SvcLog s'\<rparr>"
    unfolding assms
    by (intro service.equality)
       (simp_all add: enter_state_candidate_fields after_candidate_loop_def)
  show "State s' = ''C'' \<or> State s' = ''L''"
    unfolding assms by (simp add: enter_state_candidate_fields)
  show "votedFor s' = votedFor s"
    unfolding assms by (simp add: enter_state_candidate_fields)
next
  assume h: "votedFor s = JNull \<and> map_of params ''term'' = Some (JInt t)
          \<and> currentTerm s' \<le> t \<and> map_of params ''candidateId'' = Some c"
  have vf: "votedFor s' = JNull" and sid: "ServerId s' = ServerId s"
    using h unfolding assms by (simp_all add: enter_state_candidate_fields)
  show "fst (request_vote_server (JDict params) s') =
            Inr (JDict [(''term'', JInt t), (''voteGranted'', JBool True), (''serverId'', JStr (ServerId s))])"
    using h vf sid by (simp add: request_vote_server_def Let_def)
  show "votedFor (snd (request_vote_server (JDict params) s')) = c"
    using h vf
    by (simp add: request_vote_server_def Let_def warn_def enter_state_follower_def
          get_election_timeout_def)
qed

theorem C10_witness:
  "votedFor example_node = JNull
   \<and> fst (enter_state_candidate example_node) = None
   \<and> State (snd (enter_state_candidate example_node)) = ''C''
   \<and> currentTerm (snd (enter_state_candidate example_node)) = 1
   \<and> votedFor (snd (enter_state_candidate example_node)) = JNull
   \<and> fst (request_vote_server (vote_request 1 ''n2:7002'') (snd (enter_state_candidate example_node))) =
       Inr (JDict [(''term'', JInt 1), (''voteGranted'', JBool True), (''serverId'', JStr ''n1:7001'')])
   \<and> votedFor (snd (request_vote_server (vote_request 1 ''n2:7002'')
                       (snd (enter_state_candidate example_node)))) = JStr ''n2:7002''"
proof -
  have n: "votedFor example_node = JNull" "currentTerm example_node = 0"
    "ServerId example_node = ''n1:7001''"
    by (simp_all add: example_node_def role_defs)
  have p: "Peers example_node =
      [\<lparr>Address = None, Id_peer = JStr ''n1:7001'', VoteGranted = False\<rparr>,
       \<lparr>Address = Some (''10.0.0.2'', 7002), Id_peer = JStr ''?'', VoteGranted = False\<rparr>,
       \<lparr>Address = Some (''10.0.0.3'', 7003), Id_peer = JStr ''?'', VoteGranted = False\<rparr>]"
    by (simp add: example_node_def role_defs)
  have st: "State (snd (enter_state_candidate example_node)) = ''C''"
    by (simp add: enter_state_candidate_fields p after_candidate_loop_def majority_def)
  have ct: "currentTerm (snd (enter_state_candidate example_node)) = 1"
    by (simp add: enter_state_candidate_fields n)
  show ?thesis
    using C10_candidate_leaves_votedFor [OF refl, of example_node
        "[(''term'', JInt 1), (''candidateId'', JStr ''n2:7002''),
          (''lastLogIndex'', JInt 1), (''lastLogTerm'', JInt 1)]" 1 "JStr ''n2:7002''"]
    by (simp add: n st ct vote_request_def)
qed

end
